theory Spec2Isabelle
  imports Complex_Main
begin

section \<open>Python values used by the currency normalizer\<close>

text \<open>
  The program is \<^verbatim>\<open>src/CurrencyNormalizer/lambda_function.py\<close>. Its exceptions are
  values of the type \<open>error\<close>; every one of them is a subclass of Python's
  \<^verbatim>\<open>Exception\<close>, which is what the \<^verbatim>\<open>except Exception\<close> clauses of the program catch.
  \<open>ServiceError\<close> stands for whatever the external collaborators raise (the HTTP
  client, the object store, the key-value store); its text is opaque.
\<close>

datatype error =
    ValueError string
  | TypeError
  | KeyError string
  | IndexError
  | InvalidOperation
  | DivisionByZero
  | Overflow
  | ServiceError string

subsection \<open>decimal.Decimal under the default context\<close>

text \<open>
  A \<^verbatim>\<open>Decimal\<close> is a sign (\<open>True\<close> is negative), a coefficient and an exponent, or
  an infinity, or a NaN (sign, signalling flag, payload; payload \<open>0\<close> is the empty
  payload). The program never changes the context, so arithmetic runs under the
  default one: precision 28, rounding ROUND_HALF_EVEN, Emax 999999, Emin -999999,
  clamp 0, and the traps InvalidOperation, DivisionByZero and Overflow, which raise.
  The coefficient is a natural number here where Python keeps its digit string; the
  number of digits of the string is \<open>ndigits\<close>.
\<close>

datatype decimal =
    Finite bool nat int
  | Infinity bool
  | NaN bool bool nat

definition prec :: int where "prec = 28"
definition Emax :: int where "Emax = 999999"
definition Emin :: int where "Emin = - 999999"
definition Etiny :: int where "Etiny = Emin - prec + 1"
definition Etop :: int where "Etop = Emax - prec + 1"

definition digit_char :: "nat \<Rightarrow> char" where
  "digit_char n = ''0123456789'' ! n"

fun digits_of :: "nat \<Rightarrow> string" where
  "digits_of n =
     (if n < 10 then [digit_char n]
      else digits_of (n div 10) @ [digit_char (n mod 10)])"

definition ndigits :: "nat \<Rightarrow> nat" where
  "ndigits n = length (digits_of n)"

text \<open>
  Rounding a coefficient by dropping its last \<open>d\<close> digits. Python decides on the digit
  string (\<^verbatim>\<open>_round_half_up\<close>: up when the first dropped digit is 5 or more;
  \<^verbatim>\<open>_round_half_even\<close>: the same, except that an exact half goes to the even
  neighbour); on numbers that is a comparison of twice the dropped part with \<open>10 ^ d\<close>.
\<close>

definition round_half_up :: "nat \<Rightarrow> nat \<Rightarrow> nat" where
  "round_half_up c d =
     (let q = c div 10 ^ d; r = c mod 10 ^ d
      in if 10 ^ d \<le> 2 * r then q + 1 else q)"

definition round_half_even :: "nat \<Rightarrow> nat \<Rightarrow> nat" where
  "round_half_even c d =
     (let q = c div 10 ^ d; r = c mod 10 ^ d
      in if 2 * r = 10 ^ d \<and> even q then q else round_half_up c d)"

text \<open>
  \<^verbatim>\<open>Decimal._fix\<close>: round to the context's precision and exponent range. A zero only
  has its exponent clamped. A nonzero number whose adjusted exponent exceeds Emax
  raises Overflow; otherwise it is rounded (half-even) to at most 28 digits, or to the
  exponent Etiny when it is subnormal.
\<close>

definition fix_nan :: "decimal \<Rightarrow> decimal" where
  "fix_nan d =
     (case d of
        NaN s sig p \<Rightarrow> if nat prec < ndigits p \<and> p \<noteq> 0 then NaN s sig (p mod 10 ^ nat prec) else d
      | _ \<Rightarrow> d)"

definition dec_fix :: "decimal \<Rightarrow> error + decimal" where
  "dec_fix d =
     (case d of
        NaN s sig p \<Rightarrow> Inr (fix_nan d)
      | Infinity s \<Rightarrow> Inr d
      | Finite s c e \<Rightarrow>
          if c = 0 then Inr (Finite s 0 (min (max e Etiny) Emax))
          else
            let exp_min0 = int (ndigits c) + e - prec in
            if Etop < exp_min0 then Inl Overflow
            else
              let exp_min = (if exp_min0 < Etiny then Etiny else exp_min0) in
              if e < exp_min then
                let coeff = round_half_even c (nat (exp_min - e));
                    (coeff', exp_min') =
                      (if nat prec < ndigits coeff then (coeff div 10, exp_min + 1)
                       else (coeff, exp_min))
                in if Etop < exp_min' then Inl Overflow
                   else Inr (Finite s coeff' exp_min')
              else Inr d)"

text \<open>
  \<^verbatim>\<open>Decimal._check_nans\<close>: a signalling NaN operand raises InvalidOperation, a quiet
  one is the result (the left operand first).
\<close>

definition is_nan :: "decimal \<Rightarrow> bool" where
  "is_nan d = (case d of NaN _ _ _ \<Rightarrow> True | _ \<Rightarrow> False)"

definition is_snan :: "decimal \<Rightarrow> bool" where
  "is_snan d = (case d of NaN _ sig _ \<Rightarrow> sig | _ \<Rightarrow> False)"

definition is_infinite :: "decimal \<Rightarrow> bool" where
  "is_infinite d = (case d of Infinity _ \<Rightarrow> True | _ \<Rightarrow> False)"

definition is_zero :: "decimal \<Rightarrow> bool" where
  "is_zero d = (case d of Finite _ c _ \<Rightarrow> c = 0 | _ \<Rightarrow> False)"

definition sign_of :: "decimal \<Rightarrow> bool" where
  "sign_of d = (case d of Finite s _ _ \<Rightarrow> s | Infinity s \<Rightarrow> s | NaN s _ _ \<Rightarrow> s)"

definition check_nans :: "decimal \<Rightarrow> decimal \<Rightarrow> (error + decimal) option" where
  "check_nans a b =
     (if is_nan a \<or> is_nan b then
        Some (if is_snan a then Inl InvalidOperation
              else if is_snan b then Inl InvalidOperation
              else if is_nan a then Inr (fix_nan a)
              else Inr (fix_nan b))
      else None)"

text \<open>\<^verbatim>\<open>Decimal.__mul__\<close>: the exact product of the coefficients, then \<open>dec_fix\<close>.\<close>

definition dec_mul :: "decimal \<Rightarrow> decimal \<Rightarrow> error + decimal" where
  "dec_mul a b =
     (let resultsign = (sign_of a \<noteq> sign_of b) in
      case check_nans a b of
        Some ans \<Rightarrow> ans
      | None \<Rightarrow>
          if is_infinite a then
            (if is_zero b then Inl InvalidOperation else Inr (Infinity resultsign))
          else if is_infinite b then
            (if is_zero a then Inl InvalidOperation else Inr (Infinity resultsign))
          else
            (case (a, b) of
               (Finite _ c1 e1, Finite _ c2 e2) \<Rightarrow> dec_fix (Finite resultsign (c1 * c2) (e1 + e2))
             | _ \<Rightarrow> Inl InvalidOperation))"

text \<open>
  \<^verbatim>\<open>Decimal.__truediv__\<close>. For nonzero finite operands the dividend is shifted so that
  the integer quotient has one digit more than the precision; an inexact quotient
  ending in 0 or 5 is bumped by one so that \<open>dec_fix\<close> rounds it correctly, an exact one
  loses trailing zeros while its exponent is below the ideal one.
\<close>

fun strip_zeros :: "nat \<Rightarrow> nat \<Rightarrow> int \<Rightarrow> nat \<times> int" where
  "strip_zeros 0 coeff ex = (coeff, ex)"
| "strip_zeros (Suc k) coeff ex =
     (if coeff mod 10 = 0 then strip_zeros k (coeff div 10) (ex + 1) else (coeff, ex))"

definition dec_div :: "decimal \<Rightarrow> decimal \<Rightarrow> error + decimal" where
  "dec_div a b =
     (let sign = (sign_of a \<noteq> sign_of b) in
      case check_nans a b of
        Some ans \<Rightarrow> ans
      | None \<Rightarrow>
          if is_infinite a \<and> is_infinite b then Inl InvalidOperation
          else if is_infinite a then Inr (Infinity sign)
          else if is_infinite b then Inr (Finite sign 0 Etiny)
          else
            (case (a, b) of
               (Finite _ c1 e1, Finite _ c2 e2) \<Rightarrow>
                 if c2 = 0 then (if c1 = 0 then Inl InvalidOperation else Inl DivisionByZero)
                 else if c1 = 0 then dec_fix (Finite sign 0 (e1 - e2))
                 else
                   let shift = int (ndigits c2) - int (ndigits c1) + prec + 1;
                       ex = e1 - e2 - shift;
                       n = (if 0 \<le> shift then c1 * 10 ^ nat shift else c1);
                       m = (if 0 \<le> shift then c2 else c2 * 10 ^ nat (- shift));
                       coeff = n div m;
                       remainder = n mod m
                   in if remainder \<noteq> 0 then
                        dec_fix (Finite sign (if coeff mod 5 = 0 then coeff + 1 else coeff) ex)
                      else
                        (case strip_zeros (nat (e1 - e2 - ex)) coeff ex of
                           (coeff', ex') \<Rightarrow> dec_fix (Finite sign coeff' ex'))
             | _ \<Rightarrow> Inl InvalidOperation))"

text \<open>
  \<^verbatim>\<open>Decimal.quantize(Decimal('0.01'), rounding=ROUND_HALF_UP)\<close>, the only use the program
  makes of it: rescale to the exponent \<open>-2\<close>, rounding half-up. An infinity raises
  InvalidOperation, and so does a result that needs more digits than the precision.
\<close>

definition rescale_half_up :: "bool \<Rightarrow> nat \<Rightarrow> int \<Rightarrow> int \<Rightarrow> decimal" where
  "rescale_half_up s c e ex =
     (if c = 0 then Finite s 0 ex
      else if ex \<le> e then Finite s (c * 10 ^ nat (e - ex)) ex
      else Finite s (round_half_up c (nat (ex - e))) ex)"

definition quantize_cents :: "decimal \<Rightarrow> error + decimal" where
  "quantize_cents d =
     (case d of
        NaN s sig p \<Rightarrow> if sig then Inl InvalidOperation else Inr (fix_nan d)
      | Infinity s \<Rightarrow> Inl InvalidOperation
      | Finite s c e \<Rightarrow>
          if c = 0 then dec_fix (Finite s 0 (- 2))
          else
            let self_adjusted = e + int (ndigits c) - 1 in
            if Emax < self_adjusted then Inl InvalidOperation
            else if prec < self_adjusted - (- 2) + 1 then Inl InvalidOperation
            else
              (case rescale_half_up s c e (- 2) of
                 Finite s' c' e' \<Rightarrow>
                   if Emax < e' + int (ndigits c') - 1 then Inl InvalidOperation
                   else if nat prec < ndigits c' then Inl InvalidOperation
                   else dec_fix (Finite s' c' e')
               | other \<Rightarrow> Inr other))"

text \<open>
  \<^verbatim>\<open>Decimal.__str__\<close>: plain notation when the exponent is at most 0 and the number is
  not too small, scientific notation otherwise.
\<close>

definition dec_str :: "decimal \<Rightarrow> string" where
  "dec_str d =
     (case d of
        Infinity s \<Rightarrow> (if s then ''-'' else '''') @ ''Infinity''
      | NaN s sig p \<Rightarrow>
          (if s then ''-'' else '''') @ (if sig then ''sNaN'' else ''NaN'')
            @ (if p = 0 then '''' else digits_of p)
      | Finite s c e \<Rightarrow>
          let ds = digits_of c;
              leftdigits = e + int (length ds);
              dotplace = (if e \<le> 0 \<and> - 6 < leftdigits then leftdigits else 1);
              intpart = (if dotplace \<le> 0 then ''0''
                         else if int (length ds) \<le> dotplace
                           then ds @ replicate (nat (dotplace - int (length ds))) (CHR ''0'')
                         else take (nat dotplace) ds);
              fracpart = (if dotplace \<le> 0 then ''.'' @ replicate (nat (- dotplace)) (CHR ''0'') @ ds
                          else if int (length ds) \<le> dotplace then ''''
                          else ''.'' @ drop (nat dotplace) ds);
              ex = (if leftdigits = dotplace then ''''
                    else ''E'' @ (if leftdigits - dotplace < 0 then ''-'' else ''+'')
                           @ digits_of (nat \<bar>leftdigits - dotplace\<bar>))
          in (if s then ''-'' else '''') @ intpart @ fracpart @ ex)"

text \<open>
  \<^verbatim>\<open>Decimal(value)\<close> for a string: leading and trailing whitespace is stripped, every
  underscore is removed, and what is left must be an optional sign followed by a number
  (digits with an optional point and an optional exponent, at least one digit), an
  infinity, or a NaN with optional payload digits; letters match in either case.
  A string is a list of code points below 256. The conversion is exact: the context
  is not applied.
\<close>

definition is_digit :: "char \<Rightarrow> bool" where
  "is_digit c = (let n = of_char c :: nat in 48 \<le> n \<and> n \<le> 57)"

definition is_space :: "char \<Rightarrow> bool" where
  "is_space c =
     (let n = of_char c :: nat
      in (9 \<le> n \<and> n \<le> 13) \<or> (28 \<le> n \<and> n \<le> 32) \<or> n = 133 \<or> n = 160)"

definition lower :: "char \<Rightarrow> char" where
  "lower c =
     (case map_of (zip ''ABCDEFGHIJKLMNOPQRSTUVWXYZ'' ''abcdefghijklmnopqrstuvwxyz'') c of
        None \<Rightarrow> c
      | Some l \<Rightarrow> l)"

definition strip :: "string \<Rightarrow> string" where
  "strip s = rev (dropWhile is_space (rev (dropWhile is_space s)))"

definition nat_of_digits :: "string \<Rightarrow> nat" where
  "nat_of_digits ds = foldl (\<lambda>a c. 10 * a + (of_char c - 48)) 0 ds"

definition split_sign :: "string \<Rightarrow> bool \<times> string" where
  "split_sign t =
     (case t of
        [] \<Rightarrow> (False, t)
      | c # r \<Rightarrow> if c = CHR ''-'' then (True, r) else if c = CHR ''+'' then (False, r) else (False, t))"

definition parse_exponent :: "string \<Rightarrow> int option" where
  "parse_exponent r =
     (case r of
        [] \<Rightarrow> Some 0
      | c # r' \<Rightarrow>
          if lower c = CHR ''e'' then
            (case split_sign r' of
               (neg, ds) \<Rightarrow>
                 if ds \<noteq> [] \<and> list_all is_digit ds
                 then Some (if neg then - int (nat_of_digits ds) else int (nat_of_digits ds))
                 else None)
          else None)"

definition parse_number :: "bool \<Rightarrow> string \<Rightarrow> decimal option" where
  "parse_number sign r =
     (let intpart = takeWhile is_digit r;
          r1 = dropWhile is_digit r;
          (fracpart, r2) =
            (case r1 of
               [] \<Rightarrow> ([], r1)
             | c # r' \<Rightarrow>
                 if c = CHR ''.'' then (takeWhile is_digit r', dropWhile is_digit r')
                 else ([], r1))
      in if intpart = [] \<and> fracpart = [] then None
         else
           (case parse_exponent r2 of
              None \<Rightarrow> None
            | Some ex \<Rightarrow>
                Some (Finite sign (nat_of_digits (intpart @ fracpart)) (ex - int (length fracpart)))))"

definition parse_decimal :: "string \<Rightarrow> decimal option" where
  "parse_decimal s =
     (case split_sign (filter (\<lambda>c. c \<noteq> CHR ''_'') (strip s)) of
        (sign, r) \<Rightarrow>
          let l = map lower r in
          if l = ''inf'' \<or> l = ''infinity'' then Some (Infinity sign)
          else if take 3 l = ''nan'' \<and> list_all is_digit (drop 3 r)
            then Some (NaN sign False (nat_of_digits (drop 3 r)))
          else if take 4 l = ''snan'' \<and> list_all is_digit (drop 4 r)
            then Some (NaN sign True (nat_of_digits (drop 4 r)))
          else parse_number sign r)"

subsection \<open>Rows, rate tables and the outside world\<close>

text \<open>
  A row is the \<^verbatim>\<open>dict\<close> that \<^verbatim>\<open>csv.DictReader\<close> yields for one line: field names in
  header order, each with a string, or with Python's \<^verbatim>\<open>None\<close> (here \<open>None\<close>) when
  the line is shorter than the header. An association list stands for a \<^verbatim>\<open>dict\<close>: its
  keys are distinct, \<open>map_of\<close> looks a key up, and \<open>setitem\<close> is \<^verbatim>\<open>d[k] = v\<close>, which
  keeps the position of a key that is present and appends a new one. A line longer
  than the header (whose surplus \<^verbatim>\<open>DictReader\<close> stores under the key \<^verbatim>\<open>None\<close>) is outside
  this type.
\<close>

type_synonym row = "(string \<times> string option) list"

type_synonym rate_table = "(string \<times> decimal) list"

fun setitem :: "'k \<Rightarrow> 'v \<Rightarrow> ('k \<times> 'v) list \<Rightarrow> ('k \<times> 'v) list" where
  "setitem k v [] = [(k, v)]"
| "setitem k v (p # ps) = (if fst p = k then (k, v) # ps else p # setitem k v ps)"

definition has_key :: "('k \<times> 'v) list \<Rightarrow> 'k \<Rightarrow> bool" where
  "has_key d k = (map_of d k \<noteq> None)"

text \<open>\<^verbatim>\<open>str(x)\<close> of a field: the string itself, or \<^verbatim>\<open>'None'\<close>.\<close>

definition py_str :: "string option \<Rightarrow> string" where
  "py_str v = (case v of None \<Rightarrow> ''None'' | Some s \<Rightarrow> s)"

text \<open>\<^verbatim>\<open>Decimal(x)\<close> of a field: \<^verbatim>\<open>None\<close> is a TypeError, a bad literal an InvalidOperation.\<close>

definition Decimal :: "string option \<Rightarrow> error + decimal" where
  "Decimal v =
     (case v of
        None \<Rightarrow> Inl TypeError
      | Some s \<Rightarrow> (case parse_decimal s of None \<Rightarrow> Inl InvalidOperation | Some d \<Rightarrow> Inr d))"

text \<open>
  A raw rate of the feed is a JSON value: \<^verbatim>\<open>null\<close>, a boolean, a number or a string
  (arrays and objects are outside this type). A JSON number reaches the program as a
  Python \<^verbatim>\<open>int\<close> or \<^verbatim>\<open>float\<close>; \<^verbatim>\<open>Decimal\<close> converts either exactly, so \<open>JNum\<close> carries the
  number as that decimal. \<open>truthy\<close> is Python's truth value, as in \<^verbatim>\<open>if rate\<close>.
\<close>

datatype json = JNull | JBool bool | JNum decimal | JStr string

definition truthy :: "json \<Rightarrow> bool" where
  "truthy v =
     (case v of
        JNull \<Rightarrow> False
      | JBool b \<Rightarrow> b
      | JNum d \<Rightarrow> \<not> is_zero d
      | JStr s \<Rightarrow> s \<noteq> [])"

definition Decimal_json :: "json \<Rightarrow> error + decimal" where
  "Decimal_json v =
     (case v of
        JNull \<Rightarrow> Inl TypeError
      | JBool b \<Rightarrow> Inr (Finite False (if b then 1 else 0) 0)
      | JNum d \<Rightarrow> Inr d
      | JStr s \<Rightarrow> Decimal (Some s))"

text \<open>
  What the rate feed answers: the request, the status check or the JSON decoding
  raises, or the body is a JSON object whose \<^verbatim>\<open>rates\<close> member, when present, is an
  object.
\<close>

datatype feed = Feed_raises error | Feed_body "(string \<times> json) list option"

text \<open>
  The archive object handed to \<^verbatim>\<open>put_object\<close> is the output of a \<^verbatim>\<open>csv.DictWriter\<close>: a
  header and one list of fields per record. The text that the \<^verbatim>\<open>csv\<close> module makes of
  them (quoting, line ends, \<^verbatim>\<open>None\<close> written as the empty field) is not modelled.
\<close>

record csv_file =
  header :: "string list"
  lines :: "string option list list"

text \<open>
  Everything the program does to the outside is an event of the trace, in order: the
  calls to the collaborators and the lines it prints. The collaborators are
  parameters: each one answers from the trace so far and the arguments of the call,
  so that every behaviour of the real services is one choice of \<open>env\<close>. \<open>clock n\<close>
  is \<^verbatim>\<open>datetime.utcnow().isoformat()\<close> at the \<open>n\<close>-th reading of the clock. The
  DynamoDB table of \<^verbatim>\<open>PROPERTIES_TABLE_NAME\<close> is behind \<open>ddb_put_item\<close> and
  \<open>ddb_flush\<close> (the batch writer's \<^verbatim>\<open>put_item\<close>, and the flush when its \<^verbatim>\<open>with\<close> block
  is left); the variable \<^verbatim>\<open>raw_bucket\<close> is never used by the program.
\<close>

datatype event =
    Http_get
  | S3_get string string
  | Ddb_put row
  | S3_put string string csv_file
  | Log_fetch_error error
  | Log_read_error string string error
  | Log_file_error string string error
  | Log_item_error error
  | Log_write_error string string error

record world =
  ticks :: nat
  trace :: "event list"

record env =
  clock :: "nat \<Rightarrow> string"
  rate_feed :: "event list \<Rightarrow> feed"
  s3_read :: "event list \<Rightarrow> string \<Rightarrow> string \<Rightarrow> error + row list"
  ddb_put_item :: "event list \<Rightarrow> row \<Rightarrow> error option"
  ddb_flush :: "event list \<Rightarrow> error option"
  s3_put_object :: "event list \<Rightarrow> string \<Rightarrow> string \<Rightarrow> csv_file \<Rightarrow> error option"
  processed_bucket :: string

definition emit :: "event \<Rightarrow> world \<Rightarrow> world" where
  "emit ev w = w\<lparr>trace := trace w @ [ev]\<rparr>"

text \<open>
  \<^verbatim>\<open>try: body except Exception as e: handler\<close>. Every value of \<open>error\<close> is an
  \<^verbatim>\<open>Exception\<close>, so the handler takes every raise of the body.
\<close>

definition try_except ::
  "(error + 'a) \<times> world \<Rightarrow> (error \<Rightarrow> world \<Rightarrow> (error + 'a) \<times> world) \<Rightarrow> (error + 'a) \<times> world" where
  "try_except body handler =
     (case body of
        (Inl e, w) \<Rightarrow> handler e w
      | (Inr x, w) \<Rightarrow> (Inr x, w))"

section \<open>The program\<close>

subsection \<open>fetch_exchange_rates\<close>

text \<open>
  \<^verbatim>\<open>rates.get('USD')\<close> is \<^verbatim>\<open>None\<close> when the key is absent and when its value is
  \<^verbatim>\<open>null\<close>. The comprehension visits the items in order and stops at the first
  conversion or division that raises. Whatever is raised is printed and raised again.
\<close>

fun rate_items :: "json \<Rightarrow> (string \<times> json) list \<Rightarrow> error + rate_table" where
  "rate_items usd_rate [] = Inr []"
| "rate_items usd_rate ((currency, rate) # items) =
     (if truthy rate then
        (case Decimal_json usd_rate of
           Inl e \<Rightarrow> Inl e
         | Inr u \<Rightarrow>
             (case Decimal_json rate of
                Inl e \<Rightarrow> Inl e
              | Inr r \<Rightarrow>
                  (case dec_div u r of
                     Inl e \<Rightarrow> Inl e
                   | Inr q \<Rightarrow>
                       (case rate_items usd_rate items of
                          Inl e \<Rightarrow> Inl e
                        | Inr table \<Rightarrow> Inr ((currency, q) # table)))))
      else rate_items usd_rate items)"

definition build_rates :: "feed \<Rightarrow> error + rate_table" where
  "build_rates answer =
     (case answer of
        Feed_raises e \<Rightarrow> Inl e
      | Feed_body body \<Rightarrow>
          let rates = (case body of None \<Rightarrow> [] | Some r \<Rightarrow> r) in
          (case map_of rates ''USD'' of
             None \<Rightarrow> Inl (ValueError ''Missing exchange rate for USD'')
           | Some JNull \<Rightarrow> Inl (ValueError ''Missing exchange rate for USD'')
           | Some usd_rate \<Rightarrow> rate_items usd_rate rates))"

definition fetch_exchange_rates :: "env \<Rightarrow> world \<Rightarrow> (error + rate_table) \<times> world" where
  "fetch_exchange_rates env w =
     try_except
       (let w1 = emit Http_get w in (build_rates (rate_feed env (trace w)), w1))
       (\<lambda>e w'. (Inl e, emit (Log_fetch_error e) w'))"

subsection \<open>read_csv_from_s3\<close>

definition read_csv_from_s3 :: "env \<Rightarrow> string \<Rightarrow> string \<Rightarrow> world \<Rightarrow> (error + row list) \<times> world" where
  "read_csv_from_s3 env bucket key w =
     try_except
       (let w1 = emit (S3_get bucket key) w in (s3_read env (trace w) bucket key, w1))
       (\<lambda>e w'. (Inl e, emit (Log_read_error key bucket e) w'))"

subsection \<open>convert_currency and process_csv_data\<close>

definition convert_currency :: "decimal \<Rightarrow> decimal \<Rightarrow> error + decimal" where
  "convert_currency price exchange_rate =
     (case dec_mul price exchange_rate of
        Inl e \<Rightarrow> Inl e
      | Inr converted_price \<Rightarrow> quantize_cents converted_price)"

text \<open>
  One turn of the loop of \<^verbatim>\<open>process_csv_data\<close> on a row that has both fields, up to
  the stamp: the price is converted to a \<^verbatim>\<open>Decimal\<close> first, then the currency is looked
  up. \<^verbatim>\<open>row[k]\<close> raises KeyError for a key that is absent; a currency that is
  \<^verbatim>\<open>None\<close> is no key of the table.
\<close>

definition getitem :: "row \<Rightarrow> string \<Rightarrow> error + string option" where
  "getitem row k = (case map_of row k of None \<Rightarrow> Inl (KeyError k) | Some v \<Rightarrow> Inr v)"

definition rate_of :: "rate_table \<Rightarrow> string option \<Rightarrow> decimal option" where
  "rate_of exchange_rates currency =
     (case currency of None \<Rightarrow> None | Some c \<Rightarrow> map_of exchange_rates c)"

definition convert_row :: "rate_table \<Rightarrow> row \<Rightarrow> error + row" where
  "convert_row exchange_rates row =
     (case getitem row ''price'' of
        Inl e \<Rightarrow> Inl e
      | Inr p \<Rightarrow>
          (case Decimal p of
             Inl e \<Rightarrow> Inl e
           | Inr price \<Rightarrow>
               (case getitem row ''currency'' of
                  Inl e \<Rightarrow> Inl e
                | Inr currency \<Rightarrow>
                    (case rate_of exchange_rates currency of
                       None \<Rightarrow> Inr row
                     | Some exchange_rate \<Rightarrow>
                         (case convert_currency price exchange_rate of
                            Inl e \<Rightarrow> Inl e
                          | Inr converted \<Rightarrow>
                              Inr (setitem ''currency'' (Some ''USD'')
                                    (setitem ''price'' (Some (dec_str converted)) row)))))))"

fun process_rows ::
  "env \<Rightarrow> rate_table \<Rightarrow> row list \<Rightarrow> row list \<Rightarrow> world \<Rightarrow> (error + row list) \<times> world" where
  "process_rows env exchange_rates [] processed_data w = (Inr processed_data, w)"
| "process_rows env exchange_rates (row # rest) processed_data w =
     (if has_key row ''price'' \<and> has_key row ''currency'' then
        (case convert_row exchange_rates row of
           Inl e \<Rightarrow> (Inl e, w)
         | Inr row1 \<Rightarrow>
             let row2 = setitem ''creationDate'' (Some (clock env (ticks w))) row1;
                 w1 = w\<lparr>ticks := Suc (ticks w)\<rparr>
             in process_rows env exchange_rates rest (processed_data @ [row2]) w1)
      else process_rows env exchange_rates rest processed_data w)"

definition process_csv_data ::
  "env \<Rightarrow> row list \<Rightarrow> rate_table \<Rightarrow> world \<Rightarrow> (error + row list) \<times> world" where
  "process_csv_data env csv_data exchange_rates w = process_rows env exchange_rates csv_data [] w"

subsection \<open>upload_to_dynamodb\<close>

text \<open>
  The items are dictionaries that the caller still holds: what the loop writes into
  an item is visible afterwards, so the function returns the items as it leaves them,
  also when it raises. Inside the loop every raise is caught and printed; the flush on
  leaving the \<^verbatim>\<open>with\<close> block is not inside any \<^verbatim>\<open>try\<close>.
\<close>

definition put_one :: "env \<Rightarrow> row \<Rightarrow> world \<Rightarrow> row \<times> world" where
  "put_one env item w =
     (case map_of item ''zpid'' of
        None \<Rightarrow> (item, emit (Log_item_error (KeyError ''zpid'')) w)
      | Some z \<Rightarrow>
          let item1 = setitem ''zpid'' (Some (py_str z)) item in
          (case map_of item1 ''creationDate'' of
             None \<Rightarrow> (item1, emit (Log_item_error (KeyError ''creationDate'')) w)
           | Some d \<Rightarrow>
               let item2 = setitem ''creationDate'' (Some (py_str d)) item1;
                   w1 = emit (Ddb_put item2) w
               in (case ddb_put_item env (trace w) item2 of
                     None \<Rightarrow> (item2, w1)
                   | Some e \<Rightarrow> (item2, emit (Log_item_error e) w1))))"

fun put_all :: "env \<Rightarrow> row list \<Rightarrow> world \<Rightarrow> row list \<times> world" where
  "put_all env [] w = ([], w)"
| "put_all env (item # items) w =
     (case put_one env item w of
        (item', w1) \<Rightarrow> (case put_all env items w1 of (items', w2) \<Rightarrow> (item' # items', w2)))"

definition upload_to_dynamodb :: "env \<Rightarrow> row list \<Rightarrow> world \<Rightarrow> (error + unit) \<times> row list \<times> world" where
  "upload_to_dynamodb env items w =
     (case put_all env items w of
        (items', w1) \<Rightarrow>
          (case ddb_flush env (trace w1) of
             None \<Rightarrow> (Inr (), items', w1)
           | Some e \<Rightarrow> (Inl e, items', w1)))"

subsection \<open>write_processed_csv_to_s3\<close>

text \<open>
  \<^verbatim>\<open>data[0]\<close> raises IndexError on an empty list. The field names are the keys of the
  first record; \<^verbatim>\<open>DictWriter\<close> raises ValueError for a record with a key that is not
  among them and writes the empty string for a key that a record lacks. Every raise
  is caught and printed, and the function returns.
\<close>

definition dict_to_list :: "string list \<Rightarrow> row \<Rightarrow> error + string option list" where
  "dict_to_list fieldnames rowdict =
     (if list_all (\<lambda>k. k \<in> set fieldnames) (map fst rowdict)
      then Inr (map (\<lambda>key. case map_of rowdict key of None \<Rightarrow> Some [] | Some v \<Rightarrow> v) fieldnames)
      else Inl (ValueError ''dict contains fields not in fieldnames''))"

fun writerows :: "string list \<Rightarrow> row list \<Rightarrow> error + string option list list" where
  "writerows fieldnames [] = Inr []"
| "writerows fieldnames (rowdict # rows) =
     (case dict_to_list fieldnames rowdict of
        Inl e \<Rightarrow> Inl e
      | Inr l \<Rightarrow>
          (case writerows fieldnames rows of
             Inl e \<Rightarrow> Inl e
           | Inr ls \<Rightarrow> Inr (l # ls)))"

definition serialize :: "row list \<Rightarrow> error + csv_file" where
  "serialize data =
     (case data of
        [] \<Rightarrow> Inl IndexError
      | first # _ \<Rightarrow>
          let fieldnames = map fst first in
          (case writerows fieldnames data of
             Inl e \<Rightarrow> Inl e
           | Inr ls \<Rightarrow> Inr \<lparr>header = fieldnames, lines = ls\<rparr>))"

definition write_processed_csv_to_s3 ::
  "env \<Rightarrow> string \<Rightarrow> string \<Rightarrow> row list \<Rightarrow> world \<Rightarrow> (error + unit) \<times> world" where
  "write_processed_csv_to_s3 env bucket key data w =
     try_except
       (case serialize data of
          Inl e \<Rightarrow> (Inl e, w)
        | Inr body \<Rightarrow>
            let w1 = emit (S3_put bucket key body) w in
            (case s3_put_object env (trace w) bucket key body of
               None \<Rightarrow> (Inr (), w1)
             | Some e \<Rightarrow> (Inl e, w1)))
       (\<lambda>e w'. (Inr (), emit (Log_write_error bucket key e) w'))"

subsection \<open>lambda_handler\<close>

text \<open>
  The event is the list of its records, each the bucket name and the object key of
  one file (an event without \<^verbatim>\<open>Records\<close>, or a record without these two members, is
  outside this type). The rates are fetched before the loop and outside any \<^verbatim>\<open>try\<close>.
\<close>

record response =
  statusCode :: nat
  body :: string

definition process_file :: "env \<Rightarrow> rate_table \<Rightarrow> string \<Rightarrow> string \<Rightarrow> world \<Rightarrow> (error + unit) \<times> world" where
  "process_file env exchange_rates bucket key w =
     (case read_csv_from_s3 env bucket key w of
        (Inl e, w1) \<Rightarrow> (Inl e, w1)
      | (Inr csv_data, w1) \<Rightarrow>
          (case process_csv_data env csv_data exchange_rates w1 of
             (Inl e, w2) \<Rightarrow> (Inl e, w2)
           | (Inr processed_data, w2) \<Rightarrow>
               (case upload_to_dynamodb env processed_data w2 of
                  (Inl e, processed_data', w3) \<Rightarrow> (Inl e, w3)
                | (Inr u, processed_data', w3) \<Rightarrow>
                    write_processed_csv_to_s3 env (processed_bucket env) (''processed_'' @ key)
                      processed_data' w3)))"

fun for_records :: "env \<Rightarrow> rate_table \<Rightarrow> (string \<times> string) list \<Rightarrow> world \<Rightarrow> (error + unit) \<times> world" where
  "for_records env exchange_rates [] w = (Inr (), w)"
| "for_records env exchange_rates ((bucket, key) # records) w =
     (case try_except (process_file env exchange_rates bucket key w)
             (\<lambda>e w'. (Inr (), emit (Log_file_error key bucket e) w')) of
        (Inl e, w1) \<Rightarrow> (Inl e, w1)
      | (Inr u, w1) \<Rightarrow> for_records env exchange_rates records w1)"

definition lambda_handler :: "env \<Rightarrow> (string \<times> string) list \<Rightarrow> world \<Rightarrow> (error + response) \<times> world" where
  "lambda_handler env event w =
     (case fetch_exchange_rates env w of
        (Inl e, w1) \<Rightarrow> (Inl e, w1)
      | (Inr exchange_rates, w1) \<Rightarrow>
          (case for_records env exchange_rates event w1 of
             (Inl e, w2) \<Rightarrow> (Inl e, w2)
           | (Inr u, w2) \<Rightarrow>
               (Inr \<lparr>statusCode = 200,
                     body = [CHR 0x22] @ ''Currency normalization complete!'' @ [CHR 0x22]\<rparr>, w2)))"

section \<open>What the specification says of a converted price\<close>

text \<open>
  The specification's \<^verbatim>\<open>round_half_up(price * multiplier, 2)\<close>, in exact arithmetic: the
  magnitude of the exact product in hundredths, the half-way case rounded away from
  zero, as a decimal with two fractional digits and the sign of the product.
\<close>

definition magnitude :: "decimal \<Rightarrow> rat" where
  "magnitude d = (case d of Finite s c e \<Rightarrow> of_nat c * 10 powi e | _ \<Rightarrow> 0)"

definition spec_round_half_up :: "rat \<Rightarrow> nat" where
  "spec_round_half_up x = nat \<lfloor>x * 100 + 1 / 2\<rfloor>"


text \<open>
  The product as a context of 28 digits keeps it: a coefficient of more than 28 digits
  is rounded to its 28 leading digits, the half-way case to the even neighbour, and the
  exponent grows by the number of digits dropped. \<open>spec_round_cents\<close> is the
  specification's \<^verbatim>\<open>round_half_up(x, 2)\<close> of a finite decimal, in exact arithmetic.
\<close>

definition rounded_product :: "decimal \<Rightarrow> decimal \<Rightarrow> decimal" where
  "rounded_product price multiplier =
     (case (price, multiplier) of
        (Finite s c e, Finite ms mc me) \<Rightarrow>
          if c * mc < 10 ^ 28 then Finite (s \<noteq> ms) (c * mc) (e + me)
          else Finite (s \<noteq> ms) (round_half_even (c * mc) (ndigits (c * mc) - 28))
                 (e + me + int (ndigits (c * mc) - 28))
      | _ \<Rightarrow> NaN False False 0)"

definition spec_round_cents :: "decimal \<Rightarrow> decimal" where
  "spec_round_cents d = Finite (sign_of d) (spec_round_half_up (magnitude d)) (- 2)"

section \<open>Example surroundings\<close>

text \<open>
  A world in which nothing has happened yet, and collaborators that answer the same
  whatever was done before: a clock that stands still, a feed, a reader, and stores
  that accept or refuse every write.
\<close>

definition fresh :: world where
  "fresh = \<lparr>ticks = 0, trace = []\<rparr>"

definition still_clock :: "nat \<Rightarrow> string" where
  "still_clock n = ''2024-05-01T12:00:00''"

definition feed_answers :: "feed \<Rightarrow> event list \<Rightarrow> feed" where
  "feed_answers f t = f"

definition read_answers :: "error + row list \<Rightarrow> event list \<Rightarrow> string \<Rightarrow> string \<Rightarrow> error + row list" where
  "read_answers r t bucket key = r"

definition put_item_answers :: "error option \<Rightarrow> event list \<Rightarrow> row \<Rightarrow> error option" where
  "put_item_answers r t item = r"

definition flush_answers :: "error option \<Rightarrow> event list \<Rightarrow> error option" where
  "flush_answers r t = r"

definition put_object_answers ::
  "error option \<Rightarrow> event list \<Rightarrow> string \<Rightarrow> string \<Rightarrow> csv_file \<Rightarrow> error option" where
  "put_object_answers r t bucket key content = r"

definition example_env :: "feed \<Rightarrow> error + row list \<Rightarrow> env" where
  "example_env f r =
     \<lparr>clock = still_clock,
      rate_feed = feed_answers f,
      s3_read = read_answers r,
      ddb_put_item = put_item_answers None,
      ddb_flush = flush_answers None,
      s3_put_object = put_object_answers None,
      processed_bucket = ''processed-properties''\<rparr>"

section \<open>Observations on a trace\<close>

text \<open>
  The files that were asked from the raw store, in order; and the world after one
  turn of the loop of \<^verbatim>\<open>lambda_handler\<close>, whose \<^verbatim>\<open>except\<close> clause prints what the turn
  raised.
\<close>

fun reads :: "event list \<Rightarrow> (string \<times> string) list" where
  "reads [] = []"
| "reads (S3_get bucket key # t) = (bucket, key) # reads t"
| "reads (ev # t) = reads t"

definition file_outcome :: "string \<Rightarrow> string \<Rightarrow> (error + unit) \<times> world \<Rightarrow> world" where
  "file_outcome bucket key r =
     (case r of (Inl e, w) \<Rightarrow> emit (Log_file_error key bucket e) w | (Inr u, w) \<Rightarrow> w)"

text \<open>
  The items handed to the batch writer, in order. An item reaches the batch writer when
  it has both \<^verbatim>\<open>zpid\<close> and \<^verbatim>\<open>creationDate\<close>; \<open>coerced\<close> is the item as the loop of
  \<^verbatim>\<open>upload_to_dynamodb\<close> leaves it, and \<open>line_of\<close> the fields that \<^verbatim>\<open>DictWriter\<close> writes
  for a record under given field names.
\<close>

fun puts :: "event list \<Rightarrow> row list" where
  "puts [] = []"
| "puts (Ddb_put item # t) = item # puts t"
| "puts (ev # t) = puts t"

definition storable :: "row \<Rightarrow> bool" where
  "storable item = (has_key item ''zpid'' \<and> has_key item ''creationDate'')"

definition coerced :: "row \<Rightarrow> row" where
  "coerced item =
     (case map_of item ''zpid'' of
        None \<Rightarrow> item
      | Some z \<Rightarrow>
          (case map_of item ''creationDate'' of
             None \<Rightarrow> setitem ''zpid'' (Some (py_str z)) item
           | Some d \<Rightarrow>
               setitem ''creationDate'' (Some (py_str d)) (setitem ''zpid'' (Some (py_str z)) item)))"

definition line_of :: "string list \<Rightarrow> row \<Rightarrow> string option list" where
  "line_of fieldnames rowdict =
     map (\<lambda>key. case map_of rowdict key of None \<Rightarrow> Some [] | Some v \<Rightarrow> v) fieldnames"

text \<open>
  A raw rate that is \<^verbatim>\<open>null\<close> or a finite number of at most 2000 digits with an exponent
  between -2000 and 2000 (every \<^verbatim>\<open>float\<close> is one, and every \<^verbatim>\<open>int\<close> of at most 2000
  digits); and an entry of the rate table that belongs to an item of the feed: the same
  currency, with the quotient of the two conversions to \<^verbatim>\<open>Decimal\<close> as the program
  divides them.
\<close>

definition plain_rate :: "json \<Rightarrow> bool" where
  "plain_rate r =
     (case r of
        JNull \<Rightarrow> True
      | JNum (Finite s n e) \<Rightarrow> ndigits n \<le> 2000 \<and> - 2000 \<le> e \<and> e \<le> 2000
      | _ \<Rightarrow> False)"

definition is_multiplier :: "json \<Rightarrow> string \<times> json \<Rightarrow> string \<times> decimal \<Rightarrow> bool" where
  "is_multiplier usd_rate item entry =
     (fst entry = fst item \<and>
      (case (Decimal_json usd_rate, Decimal_json (snd item)) of
         (Inr u, Inr r) \<Rightarrow> dec_div u r = Inr (snd entry)
       | _ \<Rightarrow> False))"

text \<open>The result of a batch with the rows \<open>first\<close> put in front of its output.\<close>

definition then_rows :: "row list \<Rightarrow> (error + row list) \<times> world \<Rightarrow> (error + row list) \<times> world" where
  "then_rows first r =
     (case r of (Inl e, w) \<Rightarrow> (Inl e, w) | (Inr out, w) \<Rightarrow> (Inr (first @ out), w))"

section \<open>Evaluation of the decimal operations\<close>

lemmas context_defs = prec_def Emax_def Emin_def Etiny_def Etop_def

lemmas parse_defs =
  parse_decimal_def split_sign_def strip_def is_space_def lower_def parse_number_def
  is_digit_def parse_exponent_def nat_of_digits_def

lemmas special_defs = check_nans_def is_nan_def is_snan_def is_infinite_def is_zero_def sign_of_def

lemma strip_zeros_numeral:
  "strip_zeros (numeral k) coeff ex =
     (if coeff mod 10 = 0 then strip_zeros (pred_numeral k) (coeff div 10) (ex + 1) else (coeff, ex))"
  unfolding numeral_eq_Suc [of k] by (rule strip_zeros.simps)

lemmas div_defs =
  dec_div_def special_defs ndigits_def context_defs strip_zeros_numeral dec_fix_def
  round_half_even_def round_half_up_def

lemma div_1_1: "dec_div (Finite False 1 0) (Finite False 1 0) = Inr (Finite False 1 0)"
  by (simp add: div_defs)

lemma div_1_3:
  "dec_div (Finite False 1 0) (Finite False 3 0) = Inr (Finite False 3333333333333333333333333333 (- 28))"
  by (simp add: div_defs)

lemma parse_10_005: "parse_decimal ''10.005'' = Some (Finite False 10005 (- 3))"
  by (simp add: parse_defs)

lemma ndigits_examples: "ndigits 10005 = 5" "ndigits 1001 = 4"
  by (simp_all add: ndigits_def)

lemma mul_10_005: "dec_mul (Finite s 10005 (- 3)) (Finite False 1 0) = Inr (Finite s 10005 (- 3))"
  by (simp add: dec_mul_def special_defs dec_fix_def ndigits_examples context_defs)

lemma quantize_10_005: "quantize_cents (Finite s 10005 (- 3)) = Inr (Finite s 1001 (- 2))"
  by (simp add: quantize_cents_def rescale_half_up_def round_half_up_def dec_fix_def
      ndigits_examples context_defs)

section \<open>The archive writer on an empty batch\<close>

text \<open>
  C7. Given an empty list of records, \<^verbatim>\<open>write_processed_csv_to_s3\<close> makes no
  \<^verbatim>\<open>put_object\<close> call and returns: the IndexError of \<^verbatim>\<open>data[0]\<close> is caught and printed,
  which is the only thing added to the trace.
\<close>

theorem write_processed_csv_to_s3_empty:
  "write_processed_csv_to_s3 env bucket key [] w =
     (Inr (), w\<lparr>trace := trace w @ [Log_write_error bucket key IndexError]\<rparr>)"
  by (simp add: write_processed_csv_to_s3_def serialize_def try_except_def emit_def)

section \<open>Half-up rounding of the converted price\<close>

text \<open>
  C6. The price \<^verbatim>\<open>10.005\<close> with multiplier 1 is converted to \<^verbatim>\<open>10.01\<close>: the half-way
  case goes up, and for \<^verbatim>\<open>-10.005\<close> away from zero, to \<^verbatim>\<open>-10.01\<close>. Half-even rounding
  of the same coefficient would keep 1000, that is \<^verbatim>\<open>10.00\<close>.
\<close>

theorem convert_currency_rounds_half_up:
  "parse_decimal ''10.005'' = Some (Finite False 10005 (- 3)) \<and>
   convert_currency (Finite False 10005 (- 3)) (Finite False 1 0) = Inr (Finite False 1001 (- 2)) \<and>
   dec_str (Finite False 1001 (- 2)) = ''10.01'' \<and>
   convert_currency (Finite True 10005 (- 3)) (Finite False 1 0) = Inr (Finite True 1001 (- 2)) \<and>
   dec_str (Finite True 1001 (- 2)) = ''-10.01'' \<and>
   round_half_even 10005 1 = 1000"
proof (intro conjI)
  show "parse_decimal ''10.005'' = Some (Finite False 10005 (- 3))"
    by (rule parse_10_005)
  show "convert_currency (Finite False 10005 (- 3)) (Finite False 1 0) = Inr (Finite False 1001 (- 2))"
    unfolding convert_currency_def mul_10_005 by (simp add: quantize_10_005)
  show "dec_str (Finite False 1001 (- 2)) = ''10.01''"
    by (simp add: dec_str_def digit_char_def)
  show "convert_currency (Finite True 10005 (- 3)) (Finite False 1 0) = Inr (Finite True 1001 (- 2))"
    unfolding convert_currency_def mul_10_005 by (simp add: quantize_10_005)
  show "dec_str (Finite True 1001 (- 2)) = ''-10.01''"
    by (simp add: dec_str_def digit_char_def)
  show "round_half_even 10005 1 = 1000"
    by (simp add: round_half_even_def round_half_up_def)
qed

section \<open>The handler: a missing reference rate, and failures of single files\<close>

lemma reads_append: "reads (t @ u) = reads t @ reads u"
  by (induction t rule: reads.induct) simp_all

text \<open>
  C8. When the answer of the rate feed has no rate for USD (no \<^verbatim>\<open>rates\<close> member, no
  \<^verbatim>\<open>USD\<close> key, or \<^verbatim>\<open>null\<close> for it), \<^verbatim>\<open>lambda_handler\<close> raises the ValueError of
  \<^verbatim>\<open>fetch_exchange_rates\<close>, and all it has done is the request to the feed and the
  printed line: no file is read, nothing is stored.
\<close>

theorem lambda_handler_missing_reference_rate:
  assumes "rate_feed env (trace w) = Feed_body b"
    and "map_of (case b of None \<Rightarrow> [] | Some r \<Rightarrow> r) ''USD'' \<in> {None, Some JNull}"
  shows "lambda_handler env event w =
    (Inl (ValueError ''Missing exchange rate for USD''),
     w\<lparr>trace := trace w @ [Http_get, Log_fetch_error (ValueError ''Missing exchange rate for USD'')]\<rparr>)"
proof -
  have "build_rates (Feed_body b) = Inl (ValueError ''Missing exchange rate for USD'')"
    using assms(2) by (auto simp: build_rates_def)
  then have "fetch_exchange_rates env w =
    (Inl (ValueError ''Missing exchange rate for USD''),
     w\<lparr>trace := trace w @ [Http_get, Log_fetch_error (ValueError ''Missing exchange rate for USD'')]\<rparr>)"
    using assms(1) by (simp add: fetch_exchange_rates_def try_except_def emit_def)
  then show ?thesis
    by (simp add: lambda_handler_def)
qed

theorem lambda_handler_missing_reference_rate_witness:
  "lambda_handler (example_env (Feed_body (Some [(''EUR'', JNum (Finite False 1 0))])) (Inr []))
     [(''raw-properties'', ''listings.csv'')] fresh =
    (Inl (ValueError ''Missing exchange rate for USD''),
     \<lparr>ticks = 0, trace = [Http_get, Log_fetch_error (ValueError ''Missing exchange rate for USD'')]\<rparr>)"
  using lambda_handler_missing_reference_rate
    [of "example_env (Feed_body (Some [(''EUR'', JNum (Finite False 1 0))])) (Inr [])"
      fresh "Some [(''EUR'', JNum (Finite False 1 0))]" "[(''raw-properties'', ''listings.csv'')]"]
  by (simp add: example_env_def feed_answers_def fresh_def)

text \<open>What each stage of one file adds to the list of files read.\<close>

lemma process_rows_trace:
  "process_rows env rates rows acc w = (r, w') \<Longrightarrow> trace w' = trace w"
proof (induction rows arbitrary: acc w)
  case Nil
  then show ?case by auto
next
  case (Cons row rows)
  then show ?case
    by (auto simp: Let_def split: if_splits sum.splits)
qed

lemma put_one_reads: "put_one env item w = (item', w') \<Longrightarrow> reads (trace w') = reads (trace w)"
  by (auto simp: put_one_def emit_def reads_append Let_def split: option.splits)

lemma put_all_reads: "put_all env items w = (items', w') \<Longrightarrow> reads (trace w') = reads (trace w)"
proof (induction items arbitrary: w items')
  case Nil
  then show ?case by simp
next
  case (Cons item items)
  then show ?case
    by (auto split: prod.splits dest!: put_one_reads)
qed

lemma upload_reads:
  "upload_to_dynamodb env items w = (r, items', w') \<Longrightarrow> reads (trace w') = reads (trace w)"
  by (auto simp: upload_to_dynamodb_def split: prod.splits option.splits dest: put_all_reads)

lemma write_reads:
  "write_processed_csv_to_s3 env bucket key data w = (r, w') \<Longrightarrow> reads (trace w') = reads (trace w)"
  by (auto simp: write_processed_csv_to_s3_def try_except_def emit_def reads_append Let_def
      split: sum.splits option.splits)

lemma read_reads:
  "read_csv_from_s3 env bucket key w = (r, w') \<Longrightarrow> reads (trace w') = reads (trace w) @ [(bucket, key)]"
  by (auto simp: read_csv_from_s3_def try_except_def emit_def reads_append Let_def split: sum.splits)

lemma process_file_reads:
  assumes "process_file env rates bucket key w = (r, w')"
  shows "reads (trace w') = reads (trace w) @ [(bucket, key)]"
proof -
  obtain r1 w1 where r1: "read_csv_from_s3 env bucket key w = (r1, w1)" by fastforce
  note t1 = read_reads [OF r1]
  show ?thesis
  proof (cases r1)
    case (Inl e)
    with assms r1 t1 show ?thesis by (simp add: process_file_def)
  next
    case (Inr csv_data)
    obtain r2 w2 where r2: "process_csv_data env csv_data rates w1 = (r2, w2)" by fastforce
    then have t2: "trace w2 = trace w1"
      by (auto simp: process_csv_data_def dest: process_rows_trace)
    show ?thesis
    proof (cases r2)
      case (Inl e)
      with assms r1 r2 t1 t2 \<open>r1 = Inr csv_data\<close> show ?thesis by (simp add: process_file_def)
    next
      case (Inr processed_data)
      obtain r3 items w3 where r3: "upload_to_dynamodb env processed_data w2 = (r3, items, w3)"
        by (metis prod_cases3)
      note t3 = upload_reads [OF r3]
      show ?thesis
      proof (cases r3)
        case (Inl e)
        with assms r1 r2 r3 t1 t2 t3 \<open>r1 = Inr csv_data\<close> \<open>r2 = Inr processed_data\<close>
        show ?thesis by (simp add: process_file_def)
      next
        case (Inr u)
        with assms r1 r2 r3 \<open>r1 = Inr csv_data\<close> \<open>r2 = Inr processed_data\<close>
        have "write_processed_csv_to_s3 env (processed_bucket env) (''processed_'' @ key) items w3 = (r, w')"
          by (simp add: process_file_def)
        from write_reads [OF this] t1 t2 t3 show ?thesis by simp
      qed
    qed
  qed
qed

lemma for_records_step:
  "for_records env rates ((bucket, key) # records) w =
     for_records env rates records (file_outcome bucket key (process_file env rates bucket key w))"
  by (simp add: try_except_def file_outcome_def split: prod.splits sum.splits)

lemma for_records_returns:
  "\<exists>w'. for_records env rates records w = (Inr (), w') \<and> reads (trace w') = reads (trace w) @ records"
proof (induction records arbitrary: w)
  case Nil
  then show ?case by simp
next
  case (Cons ref refs)
  obtain bucket key where ref: "ref = (bucket, key)" by fastforce
  obtain r w1 where pf: "process_file env rates bucket key w = (r, w1)" by fastforce
  have "reads (trace (file_outcome bucket key (r, w1))) = reads (trace w) @ [(bucket, key)]"
    using process_file_reads [OF pf]
    by (simp add: file_outcome_def emit_def reads_append split: sum.splits)
  with Cons.IH [of "file_outcome bucket key (r, w1)"] show ?case
    unfolding ref for_records_step pf by auto
qed

text \<open>
  C9. Once the rates are fetched, \<^verbatim>\<open>lambda_handler\<close> returns the acknowledgment with
  status 200 for every list of file references and every behaviour of the
  collaborators; every file of the list is asked from the raw store, in order, whatever
  happened to the files before it; and a turn of the loop whose file raises (in reading,
  normalizing or persisting) prints the error and goes on with the remaining files.
\<close>

theorem lambda_handler_isolates_files:
  assumes "fetch_exchange_rates env w = (Inr exchange_rates, w1)"
  shows "lambda_handler env event w =
      (Inr \<lparr>statusCode = 200, body = [CHR 0x22] @ ''Currency normalization complete!'' @ [CHR 0x22]\<rparr>,
       snd (for_records env exchange_rates event w1))
    \<and> reads (trace (snd (for_records env exchange_rates event w1))) = reads (trace w1) @ event
    \<and> for_records env exchange_rates ((bucket, key) # records) w' =
        for_records env exchange_rates records
          (file_outcome bucket key (process_file env exchange_rates bucket key w'))"
proof -
  obtain w2 where w2: "for_records env exchange_rates event w1 = (Inr (), w2)"
    and r: "reads (trace w2) = reads (trace w1) @ event"
    using for_records_returns by blast
  from assms w2 r show ?thesis
    by (simp add: lambda_handler_def del: for_records.simps) (rule for_records_step)
qed

lemma fetch_usd_only:
  "fetch_exchange_rates (example_env (Feed_body (Some [(''USD'', JNum (Finite False 1 0))])) r) fresh =
     (Inr [(''USD'', Finite False 1 0)], \<lparr>ticks = 0, trace = [Http_get]\<rparr>)"
  by (simp add: fetch_exchange_rates_def try_except_def emit_def example_env_def feed_answers_def
      fresh_def build_rates_def truthy_def Decimal_json_def is_zero_def div_1_1 del: One_nat_def)

theorem lambda_handler_isolates_files_witness:
  "lambda_handler
     (example_env (Feed_body (Some [(''USD'', JNum (Finite False 1 0))])) (Inl (ServiceError ''NoSuchKey'')))
     [(''raw-properties'', ''a.csv''), (''raw-properties'', ''b.csv'')] fresh =
   (Inr \<lparr>statusCode = 200, body = [CHR 0x22] @ ''Currency normalization complete!'' @ [CHR 0x22]\<rparr>,
    \<lparr>ticks = 0,
     trace =
       [Http_get,
        S3_get ''raw-properties'' ''a.csv'',
        Log_read_error ''a.csv'' ''raw-properties'' (ServiceError ''NoSuchKey''),
        Log_file_error ''a.csv'' ''raw-properties'' (ServiceError ''NoSuchKey''),
        S3_get ''raw-properties'' ''b.csv'',
        Log_read_error ''b.csv'' ''raw-properties'' (ServiceError ''NoSuchKey''),
        Log_file_error ''b.csv'' ''raw-properties'' (ServiceError ''NoSuchKey'')]\<rparr>)"
  using lambda_handler_isolates_files
    [OF fetch_usd_only,
      of "Inl (ServiceError ''NoSuchKey'')"
         "[(''raw-properties'', ''a.csv''), (''raw-properties'', ''b.csv'')]"
         "''raw-properties''" "''a.csv''" "[]" fresh]
  by (simp add: try_except_def process_file_def read_csv_from_s3_def emit_def example_env_def
      read_answers_def)

section \<open>Digit counts, rounding and quantizing\<close>

declare digits_of.simps [simp del]

lemma ndigits_rec: "ndigits n = (if n < 10 then 1 else Suc (ndigits (n div 10)))"
  by (subst ndigits_def, subst digits_of.simps) (simp add: ndigits_def)

lemma ndigits_pos: "0 < ndigits n"
  by (subst ndigits_rec) simp

lemma ndigits_le_iff: "0 < k \<Longrightarrow> ndigits n \<le> k \<longleftrightarrow> n < 10 ^ k"
proof (induction k arbitrary: n)
  case 0
  then show ?case by simp
next
  case (Suc k)
  show ?case
  proof (cases "n < 10")
    case True
    have "(10::nat) \<le> 10 ^ Suc k" by (simp add: self_le_power)
    with True have "n < 10 ^ Suc k" by linarith
    with True show ?thesis by (subst ndigits_rec) simp
  next
    case False
    show ?thesis
    proof (cases "k = 0")
      case True
      with False ndigits_pos [of "n div 10"] show ?thesis by (subst ndigits_rec) simp
    next
      case False
      then have "ndigits (n div 10) \<le> k \<longleftrightarrow> n div 10 < 10 ^ k" using Suc.IH by simp
      moreover have "n div 10 < 10 ^ k \<longleftrightarrow> n < 10 ^ Suc k"
        by (simp add: div_less_iff_less_mult mult.commute)
      ultimately show ?thesis using \<open>\<not> n < 10\<close> by (subst ndigits_rec) simp
    qed
  qed
qed










section \<open>The conversion against the specification's rounding\<close>




lemma half_up_div:
  fixes c m :: nat
  assumes "0 < m"
  shows "(2 * c + m) div (2 * m) = c div m + (if m \<le> 2 * (c mod m) then 1 else 0)"
proof -
  define q r where "q = c div m" and "r = c mod m"
  have c: "c = q * m + r" and r: "r < m" using assms by (simp_all add: q_def r_def)
  have m2: "2 * m \<noteq> 0" using assms by simp
  have "2 * c + m = (2 * r + m) + q * (2 * m)" by (simp add: c algebra_simps)
  moreover have "((2 * r + m) + q * (2 * m)) div (2 * m) = q + (2 * r + m) div (2 * m)"
    using m2 by (rule div_mult_self1)
  ultimately have 1: "(2 * c + m) div (2 * m) = q + (2 * r + m) div (2 * m)"
    by (simp only:)
  have 2: "(2 * r + m) div (2 * m) = (if m \<le> 2 * r then 1 else 0)"
  proof (cases "m \<le> 2 * r")
    case True
    then have "2 * r + m = (2 * r - m) + 1 * (2 * m)" by simp
    moreover have "((2 * r - m) + 1 * (2 * m)) div (2 * m) = 1 + (2 * r - m) div (2 * m)"
      using m2 by (rule div_mult_self1)
    moreover have "(2 * r - m) div (2 * m) = 0" using r by simp
    ultimately have "(2 * r + m) div (2 * m) = 1" by (simp only:)
    with True show ?thesis by simp
  next
    case False
    then show ?thesis by simp
  qed
  show ?thesis unfolding 1 2 by (simp add: q_def r_def)
qed

lemma floor_half_up:
  fixes c m :: nat
  assumes "0 < m"
  shows "nat \<lfloor>(of_nat c :: rat) / of_nat m + 1 / 2\<rfloor> = c div m + (if m \<le> 2 * (c mod m) then 1 else 0)"
proof -
  have "(of_nat c :: rat) / of_nat m + 1 / 2 = of_nat (2 * c + m) / of_nat (2 * m)"
    using assms by (simp add: field_simps)
  then have "\<lfloor>(of_nat c :: rat) / of_nat m + 1 / 2\<rfloor> = int ((2 * c + m) div (2 * m))"
    by (simp only: floor_divide_of_nat_eq)
  then show ?thesis by (simp only: nat_int half_up_div [OF assms])
qed

lemma floor_nat_half: "nat \<lfloor>(of_nat n :: rat) + 1 / 2\<rfloor> = n"
  using floor_half_up [of 1 n] by simp

lemma floor_half: "nat \<lfloor>(1 / 2 :: rat)\<rfloor> = 0"
  using floor_nat_half [of 0] by simp






section \<open>The batch processor\<close>

lemma map_of_setitem: "map_of (setitem k v d) k' = (if k' = k then Some v else map_of d k')"
  by (induction d) auto

lemma then_rows_append: "then_rows a (then_rows b r) = then_rows (a @ b) r"
  by (simp add: then_rows_def split: prod.splits sum.splits)

lemma then_rows_Nil: "then_rows [] r = r"
  by (simp add: then_rows_def split: prod.splits sum.splits)

lemma process_rows_acc:
  "process_rows env rates rows acc w = then_rows acc (process_rows env rates rows [] w)"
proof (induction rows arbitrary: acc w)
  case Nil
  then show ?case by (simp add: then_rows_def)
next
  case (Cons row rows)
  show ?case
  proof (cases "has_key row ''price'' \<and> has_key row ''currency''")
    case False
    then show ?thesis using Cons.IH [of acc w] by auto
  next
    case True
    show ?thesis
    proof (cases "convert_row rates row")
      case (Inl e)
      with True show ?thesis by (simp add: then_rows_def)
    next
      case (Inr row1)
      define row2 where "row2 = setitem ''creationDate'' (Some (clock env (ticks w))) row1"
      define w1 where "w1 = w\<lparr>ticks := Suc (ticks w)\<rparr>"
      have "process_rows env rates (row # rows) acc w = process_rows env rates rows (acc @ [row2]) w1"
        using True Inr by (simp add: row2_def w1_def)
      also have "\<dots> = then_rows (acc @ [row2]) (process_rows env rates rows [] w1)"
        by (rule Cons.IH)
      also have "\<dots> = then_rows acc (then_rows [row2] (process_rows env rates rows [] w1))"
        by (simp add: then_rows_append)
      also have "then_rows [row2] (process_rows env rates rows [] w1) = process_rows env rates rows [row2] w1"
        by (rule Cons.IH [symmetric])
      also have "process_rows env rates rows [row2] w1 = process_rows env rates (row # rows) [] w"
        using True Inr by (simp add: row2_def w1_def)
      finally show ?thesis .
    qed
  qed
qed

lemma process_csv_data_skip:
  assumes "\<not> (has_key row ''price'' \<and> has_key row ''currency'')"
  shows "process_csv_data env (row # rest) rates w = process_csv_data env rest rates w"
  using assms by (auto simp: process_csv_data_def)

lemma process_csv_data_raise:
  assumes "has_key row ''price''" and "has_key row ''currency''" and "convert_row rates row = Inl e"
  shows "process_csv_data env (row # rest) rates w = (Inl e, w)"
  using assms by (simp add: process_csv_data_def)

lemma process_csv_data_keep:
  assumes "has_key row ''price''" and "has_key row ''currency''" and "convert_row rates row = Inr row1"
  shows "process_csv_data env (row # rest) rates w =
    then_rows [setitem ''creationDate'' (Some (clock env (ticks w))) row1]
      (process_csv_data env rest rates (w\<lparr>ticks := Suc (ticks w)\<rparr>))"
  using assms process_rows_acc [of env rates rest "[setitem ''creationDate'' (Some (clock env (ticks w))) row1]"]
  by (simp add: process_csv_data_def)


lemma process_rows_bad:
  assumes "row \<in> set rows" and "has_key row ''price''" and "has_key row ''currency''"
    and "convert_row rates row = Inl e0"
  shows "\<exists>e w'. process_rows env rates rows acc w = (Inl e, w')"
  using assms(1)
proof (induction rows arbitrary: acc w)
  case Nil
  then show ?case by simp
next
  case (Cons a rows)
  show ?case
  proof (cases "a = row")
    case True
    with assms show ?thesis by simp
  next
    case False
    with Cons.prems have "row \<in> set rows" by simp
    from Cons.IH [OF this] show ?thesis
      by (simp add: Let_def split: sum.splits)
  qed
qed

lemmas batch_defs =
  process_csv_data_def has_key_def convert_row_def getitem_def Decimal_def rate_of_def
  convert_currency_def then_rows_def example_env_def still_clock_def fresh_def

lemmas arith_defs =
  dec_mul_def special_defs dec_fix_def ndigits_def digits_of.simps context_defs
  round_half_even_def round_half_up_def quantize_cents_def rescale_half_up_def

lemmas str_defs = dec_str_def digits_of.simps digit_char_def




text \<open>
  C2, as the code has it. Nothing in \<^verbatim>\<open>process_csv_data\<close> catches the InvalidOperation of
  \<^verbatim>\<open>Decimal(row['price'])\<close>: a row with both fields whose price is no decimal literal
  makes the whole call raise, at the head of a batch with the state unchanged, and
  anywhere in a batch with no rows returned at all.
\<close>

theorem process_csv_data_bad_price_aborts:
  assumes "map_of row ''price'' = Some (Some s)" and "parse_decimal s = None"
    and "has_key row ''currency''"
  shows "process_csv_data env (row # rest) exchange_rates w = (Inl InvalidOperation, w)
    \<and> (row \<in> set csv_data \<longrightarrow> (\<exists>e w'. process_csv_data env csv_data exchange_rates w = (Inl e, w')))"
proof -
  have bad: "convert_row exchange_rates row = Inl InvalidOperation"
    using assms by (simp add: convert_row_def getitem_def Decimal_def)
  have keys: "has_key row ''price''" "has_key row ''currency''"
    using assms by (simp_all add: has_key_def)
  show ?thesis
    using process_rows_bad [OF _ keys bad, of csv_data env "[]" w] process_csv_data_raise [OF keys bad]
    by (auto simp: process_csv_data_def)
qed

theorem process_csv_data_bad_price_aborts_witness:
  "process_csv_data (example_env (Feed_body None) (Inr []))
     [[(''price'', Some ''abc''), (''currency'', Some ''EUR'')], [(''price'', Some ''100''), (''currency'', Some ''EUR'')]]
     [(''EUR'', Finite False 110 (- 2))] fresh = (Inl InvalidOperation, \<lparr>ticks = 0, trace = []\<rparr>)"
  using process_csv_data_bad_price_aborts
    [of "[(''price'', Some ''abc''), (''currency'', Some ''EUR'')]" "''abc''" "example_env (Feed_body None) (Inr [])"
      "[[(''price'', Some ''100''), (''currency'', Some ''EUR'')]]" "[(''EUR'', Finite False 110 (- 2))]" fresh "[]"]
  by (simp add: parse_defs has_key_def fresh_def)

text \<open>
  One row whose price is not numeric among nine valid rows: the call raises when it
  reaches that row, and the batch yields no record.
\<close>

theorem process_csv_data_bad_price_counterexample:
  "process_csv_data (example_env (Feed_body None) (Inr []))
     [[(''zpid'', Some ''1''), (''price'', Some ''100''), (''currency'', Some ''EUR'')],
      [(''zpid'', Some ''2''), (''price'', Some ''abc''), (''currency'', Some ''EUR'')],
      [(''zpid'', Some ''3''), (''price'', Some ''300''), (''currency'', Some ''EUR'')],
      [(''zpid'', Some ''4''), (''price'', Some ''400''), (''currency'', Some ''EUR'')],
      [(''zpid'', Some ''5''), (''price'', Some ''500''), (''currency'', Some ''EUR'')],
      [(''zpid'', Some ''6''), (''price'', Some ''600''), (''currency'', Some ''EUR'')],
      [(''zpid'', Some ''7''), (''price'', Some ''700''), (''currency'', Some ''EUR'')],
      [(''zpid'', Some ''8''), (''price'', Some ''800''), (''currency'', Some ''EUR'')],
      [(''zpid'', Some ''9''), (''price'', Some ''900''), (''currency'', Some ''EUR'')],
      [(''zpid'', Some ''10''), (''price'', Some ''1000''), (''currency'', Some ''EUR'')]]
     [(''EUR'', Finite False 110 (- 2))] fresh = (Inl InvalidOperation, \<lparr>ticks = 1, trace = []\<rparr>)"
  by (simp add: parse_defs batch_defs arith_defs str_defs)




text \<open>
  C4, as the code has it. The price is converted to a \<^verbatim>\<open>Decimal\<close> before the currency is
  looked up. A row with both fields whose currency is no key of the rate table and
  whose price is a decimal literal is passed on with \<^verbatim>\<open>price\<close> and \<^verbatim>\<open>currency\<close> as
  they were and with the stamp, and nothing is raised.
\<close>

theorem process_csv_data_unknown_currency:
  assumes "map_of row ''price'' = Some p" and "Decimal p = Inr price"
    and "map_of row ''currency'' = Some currency" and "rate_of exchange_rates currency = None"
  shows "process_csv_data env (row # rest) exchange_rates w =
      then_rows [setitem ''creationDate'' (Some (clock env (ticks w))) row]
        (process_csv_data env rest exchange_rates (w\<lparr>ticks := Suc (ticks w)\<rparr>))
    \<and> map_of (setitem ''creationDate'' (Some (clock env (ticks w))) row) ''price'' = Some p
    \<and> map_of (setitem ''creationDate'' (Some (clock env (ticks w))) row) ''currency'' = Some currency
    \<and> map_of (setitem ''creationDate'' (Some (clock env (ticks w))) row) ''creationDate'' =
        Some (Some (clock env (ticks w)))"
proof -
  have "convert_row exchange_rates row = Inr row"
    using assms by (simp add: convert_row_def getitem_def)
  moreover have "has_key row ''price''" "has_key row ''currency''"
    using assms by (simp_all add: has_key_def)
  ultimately show ?thesis
    using assms by (simp add: process_csv_data_keep map_of_setitem)
qed

theorem process_csv_data_unknown_currency_witness:
  "process_csv_data (example_env (Feed_body None) (Inr []))
     [[(''price'', Some ''7''), (''currency'', Some ''XYZ'')]]
     [(''EUR'', Finite False 110 (- 2))] fresh =
   (Inr [[(''price'', Some ''7''), (''currency'', Some ''XYZ''),
          (''creationDate'', Some ''2024-05-01T12:00:00'')]],
    \<lparr>ticks = 1, trace = []\<rparr>)"
  using process_csv_data_unknown_currency
    [of "[(''price'', Some ''7''), (''currency'', Some ''XYZ'')]" "Some ''7''" "Finite False 7 0"
      "Some ''XYZ''" "[(''EUR'', Finite False 110 (- 2))]" "example_env (Feed_body None) (Inr [])" "[]" fresh]
  by (simp add: parse_defs batch_defs)

theorem process_csv_data_unknown_currency_counterexample:
  "process_csv_data (example_env (Feed_body None) (Inr []))
     [[(''price'', Some ''abc''), (''currency'', Some ''XYZ'')]]
     [(''EUR'', Finite False 110 (- 2))] fresh = (Inl InvalidOperation, \<lparr>ticks = 0, trace = []\<rparr>)"
  by (simp add: parse_defs batch_defs)

section \<open>Persisting: records without an identifier\<close>

lemma puts_append: "puts (t @ u) = puts t @ puts u"
  by (induction t rule: puts.induct) simp_all

lemma has_key_setitem: "has_key (setitem k v d) k' = (k' = k \<or> has_key d k')"
  by (simp add: has_key_def map_of_setitem)

lemma put_one_item: "fst (put_one env item w) = coerced item"
  by (simp add: put_one_def coerced_def map_of_setitem Let_def split: option.splits)

lemma put_one_puts:
  "puts (trace (snd (put_one env item w))) = puts (trace w) @ (if storable item then [coerced item] else [])"
  by (simp add: put_one_def coerced_def storable_def has_key_def map_of_setitem Let_def emit_def
      puts_append split: option.splits)

lemma put_one_extends: "\<exists>evs. trace (snd (put_one env item w)) = trace w @ evs"
  by (simp add: put_one_def Let_def emit_def split: option.splits)

lemma put_one_without_zpid:
  "map_of item ''zpid'' = None \<Longrightarrow>
   put_one env item w = (item, emit (Log_item_error (KeyError ''zpid'')) w)"
  by (simp add: put_one_def)

lemma put_all_items: "fst (put_all env items w) = map coerced items"
proof (induction items arbitrary: w)
  case Nil
  show ?case by simp
next
  case (Cons item items)
  show ?case
    using Cons.IH [of "snd (put_one env item w)"] put_one_item [of env item w]
    by (simp add: case_prod_unfold)
qed

lemma put_all_puts:
  "puts (trace (snd (put_all env items w))) = puts (trace w) @ map coerced (filter storable items)"
proof (induction items arbitrary: w)
  case Nil
  show ?case by simp
next
  case (Cons item items)
  show ?case
    using Cons.IH [of "snd (put_one env item w)"] put_one_puts [of env item w]
    by (simp add: case_prod_unfold)
qed

lemma put_all_extends: "\<exists>evs. trace (snd (put_all env items w)) = trace w @ evs"
proof (induction items arbitrary: w)
  case Nil
  show ?case by simp
next
  case (Cons item items)
  obtain e1 where e1: "trace (snd (put_one env item w)) = trace w @ e1"
    using put_one_extends by blast
  obtain e2 where "trace (snd (put_all env items (snd (put_one env item w)))) =
      trace (snd (put_one env item w)) @ e2"
    using Cons.IH by blast
  with e1 show ?case by (simp add: case_prod_unfold)
qed

lemma put_all_append:
  "put_all env (pre @ post) w =
     (fst (put_all env pre w) @ fst (put_all env post (snd (put_all env pre w))),
      snd (put_all env post (snd (put_all env pre w))))"
  by (induction pre arbitrary: w) (simp_all add: case_prod_unfold)

lemma put_all_logs_missing_zpid:
  assumes "map_of item ''zpid'' = None"
  shows "Log_item_error (KeyError ''zpid'') \<in> set (trace (snd (put_all env (pre @ item # post) w)))"
proof -
  define w1 where "w1 = snd (put_all env pre w)"
  define w2 where "w2 = emit (Log_item_error (KeyError ''zpid'')) w1"
  have "snd (put_all env (pre @ item # post) w) = snd (put_all env post w2)"
    using assms by (simp add: put_all_append put_one_without_zpid w1_def w2_def case_prod_unfold)
  moreover obtain evs where "trace (snd (put_all env post w2)) = trace w2 @ evs"
    using put_all_extends by blast
  ultimately show ?thesis by (simp add: w2_def emit_def)
qed

lemma writerows_lines: "writerows fieldnames rows = Inr ls \<Longrightarrow> ls = map (line_of fieldnames) rows"
proof (induction rows arbitrary: ls)
  case Nil
  then show ?case by simp
next
  case (Cons rowdict rows)
  then show ?case
    by (auto simp: dict_to_list_def line_of_def split: sum.splits if_splits)
qed

lemma serialize_lines:
  "serialize data = Inr f \<Longrightarrow> lines f = map (line_of (header f)) data"
  by (auto simp: serialize_def Let_def simp del: writerows.simps split: list.splits sum.splits
      dest: writerows_lines)

lemma write_puts_object:
  assumes "serialize data = Inr f"
  shows "S3_put bucket key f \<in> set (trace (snd (write_processed_csv_to_s3 env bucket key data w)))"
  using assms
  by (simp add: write_processed_csv_to_s3_def try_except_def emit_def Let_def split: option.splits)

text \<open>
  C10. Let \<^verbatim>\<open>upload_to_dynamodb\<close> return on a list of records one of which has no
  \<^verbatim>\<open>zpid\<close>. That record is left as it was and stays in the list, which is the list the
  archive is written from; the KeyError it raised was printed; the items handed to the
  batch writer are, in order, the coerced records among the others that have \<^verbatim>\<open>zpid\<close>
  and \<^verbatim>\<open>creationDate\<close>, so the record was skipped and the loop went on. When the
  archive can be serialized from the list, \<^verbatim>\<open>write_processed_csv_to_s3\<close> calls
  \<^verbatim>\<open>put_object\<close> with it, and it holds one line for each record, the one without
  \<^verbatim>\<open>zpid\<close> included. A record \<open>x\<close> that has both fields is left with \<^verbatim>\<open>str(zpid)\<close> and
  \<^verbatim>\<open>str(creationDate)\<close> in their place, and that is what the archive is written from.
\<close>

theorem upload_skips_record_without_zpid:
  assumes up: "upload_to_dynamodb env (pre @ item # post) w = (Inr (), items, w1)"
    and nz: "map_of item ''zpid'' = None"
    and ser: "serialize items = Inr f"
  shows "items = map coerced pre @ item # map coerced post
    \<and> Log_item_error (KeyError ''zpid'') \<in> set (trace w1)
    \<and> puts (trace w1) = puts (trace w) @ map coerced (filter storable (pre @ post))
    \<and> S3_put bucket key f \<in> set (trace (snd (write_processed_csv_to_s3 env bucket key items w1)))
    \<and> lines f = map (line_of (header f)) (map coerced pre @ item # map coerced post)
    \<and> (map_of x ''zpid'' = Some z \<and> map_of x ''creationDate'' = Some d \<longrightarrow>
          coerced x = setitem ''creationDate'' (Some (py_str d)) (setitem ''zpid'' (Some (py_str z)) x))"
proof -
  have fst: "items = fst (put_all env (pre @ item # post) w)"
    and snd: "w1 = snd (put_all env (pre @ item # post) w)"
    using up by (auto simp: upload_to_dynamodb_def split: prod.splits option.splits)
  have ci: "coerced item = item" using nz by (simp add: coerced_def)
  have ns: "\<not> storable item" using nz by (simp add: storable_def has_key_def)
  have items: "items = map coerced pre @ item # map coerced post"
    unfolding fst put_all_items by (simp add: ci)
  moreover have "Log_item_error (KeyError ''zpid'') \<in> set (trace w1)"
    unfolding snd using nz by (rule put_all_logs_missing_zpid)
  moreover have "puts (trace w1) = puts (trace w) @ map coerced (filter storable (pre @ post))"
    unfolding snd put_all_puts by (simp add: ns)
  moreover have "S3_put bucket key f \<in> set (trace (snd (write_processed_csv_to_s3 env bucket key items w1)))"
    using ser by (rule write_puts_object)
  moreover have "lines f = map (line_of (header f)) (map coerced pre @ item # map coerced post)"
    using serialize_lines [OF ser] items by simp
  moreover have "map_of x ''zpid'' = Some z \<and> map_of x ''creationDate'' = Some d \<longrightarrow>
          coerced x = setitem ''creationDate'' (Some (py_str d)) (setitem ''zpid'' (Some (py_str z)) x)"
    by (simp add: coerced_def)
  ultimately show ?thesis by blast
qed

lemmas store_defs =
  upload_to_dynamodb_def put_one_def py_str_def emit_def serialize_def dict_to_list_def
  write_processed_csv_to_s3_def try_except_def example_env_def put_item_answers_def
  flush_answers_def put_object_answers_def fresh_def Let_def

theorem upload_skips_record_without_zpid_witness:
  "upload_to_dynamodb (example_env (Feed_body None) (Inr []))
     [[(''price'', Some ''110.00''), (''currency'', Some ''USD''), (''zpid'', Some ''123''), (''creationDate'', Some ''2024-05-01T12:00:00'')],
      [(''price'', Some ''7''), (''currency'', Some ''XYZ''), (''creationDate'', Some ''2024-05-01T12:00:00'')]] fresh =
   (Inr (),
    [[(''price'', Some ''110.00''), (''currency'', Some ''USD''), (''zpid'', Some ''123''), (''creationDate'', Some ''2024-05-01T12:00:00'')],
     [(''price'', Some ''7''), (''currency'', Some ''XYZ''), (''creationDate'', Some ''2024-05-01T12:00:00'')]],
    \<lparr>ticks = 0,
     trace = [Ddb_put [(''price'', Some ''110.00''), (''currency'', Some ''USD''), (''zpid'', Some ''123''), (''creationDate'', Some ''2024-05-01T12:00:00'')],
              Log_item_error (KeyError ''zpid'')]\<rparr>)
   \<and> S3_put ''processed-properties'' ''processed_listings.csv''
      \<lparr>header = [''price'', ''currency'', ''zpid'', ''creationDate''],
       lines = [[Some ''110.00'', Some ''USD'', Some ''123'', Some ''2024-05-01T12:00:00''],
                [Some ''7'', Some ''XYZ'', Some [], Some ''2024-05-01T12:00:00'']]\<rparr>
     \<in> set (trace (snd (write_processed_csv_to_s3 (example_env (Feed_body None) (Inr []))
          ''processed-properties'' ''processed_listings.csv''
          [[(''price'', Some ''110.00''), (''currency'', Some ''USD''), (''zpid'', Some ''123''), (''creationDate'', Some ''2024-05-01T12:00:00'')],
           [(''price'', Some ''7''), (''currency'', Some ''XYZ''), (''creationDate'', Some ''2024-05-01T12:00:00'')]]
          \<lparr>ticks = 0,
           trace = [Ddb_put [(''price'', Some ''110.00''), (''currency'', Some ''USD''), (''zpid'', Some ''123''), (''creationDate'', Some ''2024-05-01T12:00:00'')],
                    Log_item_error (KeyError ''zpid'')]\<rparr>)))"
proof -
  have up: "upload_to_dynamodb (example_env (Feed_body None) (Inr []))
     ([[(''price'', Some ''110.00''), (''currency'', Some ''USD''), (''zpid'', Some ''123''), (''creationDate'', Some ''2024-05-01T12:00:00'')]] @
      [(''price'', Some ''7''), (''currency'', Some ''XYZ''), (''creationDate'', Some ''2024-05-01T12:00:00'')] # []) fresh =
   (Inr (),
    [[(''price'', Some ''110.00''), (''currency'', Some ''USD''), (''zpid'', Some ''123''), (''creationDate'', Some ''2024-05-01T12:00:00'')],
     [(''price'', Some ''7''), (''currency'', Some ''XYZ''), (''creationDate'', Some ''2024-05-01T12:00:00'')]],
    \<lparr>ticks = 0,
     trace = [Ddb_put [(''price'', Some ''110.00''), (''currency'', Some ''USD''), (''zpid'', Some ''123''), (''creationDate'', Some ''2024-05-01T12:00:00'')],
              Log_item_error (KeyError ''zpid'')]\<rparr>)"
    by (simp add: store_defs)
  have nz: "map_of [(''price'', Some ''7''), (''currency'', Some ''XYZ''), (''creationDate'', Some ''2024-05-01T12:00:00'')] ''zpid'' = None"
    by simp
  have ser: "serialize
     [[(''price'', Some ''110.00''), (''currency'', Some ''USD''), (''zpid'', Some ''123''), (''creationDate'', Some ''2024-05-01T12:00:00'')],
      [(''price'', Some ''7''), (''currency'', Some ''XYZ''), (''creationDate'', Some ''2024-05-01T12:00:00'')]] =
    Inr \<lparr>header = [''price'', ''currency'', ''zpid'', ''creationDate''],
       lines = [[Some ''110.00'', Some ''USD'', Some ''123'', Some ''2024-05-01T12:00:00''],
                [Some ''7'', Some ''XYZ'', Some [], Some ''2024-05-01T12:00:00'']]\<rparr>"
    by (simp add: store_defs)
  note facts = upload_skips_record_without_zpid [OF up nz ser, of "''processed-properties''" "''processed_listings.csv''" "[]" None None]
  from facts [THEN conjunct2, THEN conjunct2, THEN conjunct2, THEN conjunct1] up
  show ?thesis by simp
qed

section \<open>The rate table\<close>

lemma ndigits_bound: "n < 10 ^ ndigits n"
  using ndigits_le_iff [of "ndigits n" n] ndigits_pos [of n] by simp

lemma ndigits_mono: "a \<le> b \<Longrightarrow> ndigits a \<le> ndigits b"
proof -
  assume "a \<le> b"
  with ndigits_bound [of b] have "a < 10 ^ ndigits b" by simp
  then show ?thesis using ndigits_le_iff [of "ndigits b" a] ndigits_pos [of b] by simp
qed

lemma ndigits_shift: "ndigits (c * 10 ^ k) \<le> ndigits c + k"
proof -
  have "c * 10 ^ k < 10 ^ ndigits c * 10 ^ k"
    using ndigits_bound [of c] by simp
  then have "c * 10 ^ k < 10 ^ (ndigits c + k)" by (simp add: power_add)
  then show ?thesis using ndigits_le_iff [of "ndigits c + k" "c * 10 ^ k"] ndigits_pos [of c] by simp
qed

lemma ndigits_Suc: "ndigits (Suc c) \<le> Suc (ndigits c)"
proof -
  have "Suc c \<le> 10 ^ ndigits c" using ndigits_bound [of c] by simp
  also have "\<dots> < 10 ^ Suc (ndigits c)" by simp
  finally show ?thesis using ndigits_le_iff [of "Suc (ndigits c)" "Suc c"] by simp
qed

lemma dec_fix_returns:
  assumes "int (ndigits c) + e \<le> 900000"
  shows "\<exists>d. dec_fix (Finite s c e) = Inr d"
  using assms by (auto simp: dec_fix_def Let_def context_defs split: prod.splits)

lemma strip_zeros_bound:
  "strip_zeros k c e = (c', e') \<Longrightarrow> c' \<le> c \<and> e' \<le> e + int k"
proof (induction k arbitrary: c e)
  case 0
  then show ?case by simp
next
  case (Suc k)
  show ?case
  proof (cases "c mod 10 = 0")
    case True
    with Suc.prems have "strip_zeros k (c div 10) (e + 1) = (c', e')" by simp
    from Suc.IH [OF this] have "c' \<le> c div 10" "e' \<le> e + 1 + int k" by simp_all
    moreover have "c div 10 \<le> c" by simp
    ultimately show ?thesis by simp
  next
    case False
    with Suc.prems show ?thesis by simp
  qed
qed

lemma dec_div_returns:
  assumes c2: "c2 \<noteq> 0"
    and n1: "ndigits c1 \<le> 2000" and n2: "ndigits c2 \<le> 2000"
    and e1: "- 2000 \<le> e1" "e1 \<le> 2000" and e2: "- 2000 \<le> e2" "e2 \<le> 2000"
  shows "\<exists>q. dec_div (Finite s1 c1 e1) (Finite s2 c2 e2) = Inr q"
proof (cases "c1 = 0")
  case True
  have "\<exists>d. dec_fix (Finite (s1 \<noteq> s2) 0 (e1 - e2)) = Inr d"
    using e1 e2 ndigits_pos [of 0] ndigits_le_iff [of 1 0] by (intro dec_fix_returns) simp
  with True c2 show ?thesis by (simp add: dec_div_def special_defs)
next
  case False
  define shift where "shift = int (ndigits c2) - int (ndigits c1) + prec + 1"
  define ex where "ex = e1 - e2 - shift"
  define n where "n = (if 0 \<le> shift then c1 * 10 ^ nat shift else c1)"
  define m where "m = (if 0 \<le> shift then c2 else c2 * 10 ^ nat (- shift))"
  define coeff where "coeff = n div m"
  have pos1: "0 < ndigits c1" and pos2: "0 < ndigits c2" by (rule ndigits_pos)+
  have nn: "int (ndigits n) \<le> int (ndigits c1) + (if 0 \<le> shift then shift else 0)"
    using ndigits_shift [of c1 "nat shift"] by (auto simp: n_def)
  have "coeff \<le> n" by (simp add: coeff_def)
  then have nc: "ndigits coeff \<le> ndigits n" by (rule ndigits_mono)
  have sh: "shift \<le> 2029" "- 2000 \<le> shift"
    using n1 n2 pos1 pos2 by (simp_all add: shift_def prec_def)
  have sum: "int (ndigits coeff) + ex \<le> 8000"
    using nc nn sh e1 e2 n1 by (simp add: ex_def split: if_splits)
  have unfold: "dec_div (Finite s1 c1 e1) (Finite s2 c2 e2) =
      (if n mod m \<noteq> 0 then dec_fix (Finite (s1 \<noteq> s2) (if coeff mod 5 = 0 then coeff + 1 else coeff) ex)
       else (case strip_zeros (nat (e1 - e2 - ex)) coeff ex of
               (coeff', ex') \<Rightarrow> dec_fix (Finite (s1 \<noteq> s2) coeff' ex')))"
    using False c2
    by (simp add: dec_div_def special_defs Let_def shift_def ex_def n_def m_def coeff_def)
  show ?thesis
  proof (cases "n mod m \<noteq> 0")
    case True
    have "ndigits (if coeff mod 5 = 0 then coeff + 1 else coeff) \<le> Suc (ndigits coeff)"
      using ndigits_Suc [of coeff] by simp
    with sum have "int (ndigits (if coeff mod 5 = 0 then coeff + 1 else coeff)) + ex \<le> 900000"
      by linarith
    from dec_fix_returns [OF this] True show ?thesis unfolding unfold by simp
  next
    case exact: False
    obtain coeff' ex' where sz: "strip_zeros (nat (e1 - e2 - ex)) coeff ex = (coeff', ex')"
      by fastforce
    from strip_zeros_bound [OF sz] have "coeff' \<le> coeff" "ex' \<le> ex + int (nat (e1 - e2 - ex))"
      by simp_all
    moreover from \<open>coeff' \<le> coeff\<close> have "ndigits coeff' \<le> ndigits coeff" by (rule ndigits_mono)
    moreover have "int (nat (e1 - e2 - ex)) \<le> 2029" using sh by (simp add: ex_def)
    ultimately have "int (ndigits coeff') + ex' \<le> 900000" using sum by linarith
    from dec_fix_returns [OF this] exact sz show ?thesis unfolding unfold by simp
  qed
qed

lemma rate_items_table:
  assumes ub: "ndigits uc \<le> 2000" "- 2000 \<le> ue" "ue \<le> 2000"
    and "list_all (\<lambda>item. plain_rate (snd item)) items"
  shows "\<exists>table. rate_items (JNum (Finite us uc ue)) items = Inr table \<and>
    list_all2 (is_multiplier (JNum (Finite us uc ue))) (filter (\<lambda>item. truthy (snd item)) items) table"
  using assms(4)
proof (induction items)
  case Nil
  show ?case by simp
next
  case (Cons item items)
  obtain currency rate where item: "item = (currency, rate)" by fastforce
  from Cons.prems have plain: "plain_rate rate" and rest: "list_all (\<lambda>item. plain_rate (snd item)) items"
    by (simp_all add: item)
  from Cons.IH [OF rest] obtain table where
    table: "rate_items (JNum (Finite us uc ue)) items = Inr table"
    and rel: "list_all2 (is_multiplier (JNum (Finite us uc ue))) (filter (\<lambda>item. truthy (snd item)) items) table"
    by blast
  show ?case
  proof (cases "truthy rate")
    case False
    with table rel show ?thesis by (simp add: item)
  next
    case True
    with plain obtain s n e where rate: "rate = JNum (Finite s n e)" and n: "n \<noteq> 0"
      and b: "ndigits n \<le> 2000" "- 2000 \<le> e" "e \<le> 2000"
      by (auto simp: plain_rate_def truthy_def is_zero_def split: json.splits decimal.splits)
    from dec_div_returns [OF n ub(1) b(1) ub(2,3) b(2,3)]
    obtain q where q: "dec_div (Finite us uc ue) (Finite s n e) = Inr q" by blast
    have "rate_items (JNum (Finite us uc ue)) (item # items) = Inr ((currency, q) # table)"
      using True table q by (simp add: item rate Decimal_json_def)
    moreover have "is_multiplier (JNum (Finite us uc ue)) item (currency, q)"
      using q by (simp add: is_multiplier_def item rate Decimal_json_def)
    ultimately show ?thesis using True rel by (simp add: item)
  qed
qed

text \<open>
  C5, as the code has it. The feed answers with a \<^verbatim>\<open>rates\<close> object. When it has no rate
  for USD (the key is absent or its value is \<^verbatim>\<open>null\<close>), \<^verbatim>\<open>fetch_exchange_rates\<close> raises
  and returns no table. When the rate for USD is a nonzero number and every raw rate is
  \<^verbatim>\<open>null\<close> or a number (of at most 2000 digits and an exponent within 2000), it
  returns a table and raises nothing: the table has, in the order of the feed, one
  entry for each currency whose raw rate is nonzero, with the multiplier
  \<^verbatim>\<open>Decimal(usd_rate) / Decimal(rate)\<close> as the 28-digit context divides, and none for a
  currency whose raw rate is zero or \<^verbatim>\<open>null\<close>.
\<close>

theorem fetch_exchange_rates_builds_table:
  assumes feed: "rate_feed env (trace w) = Feed_body (Some rates)"
  shows "(map_of rates ''USD'' \<in> {None, Some JNull} \<longrightarrow>
      fetch_exchange_rates env w =
        (Inl (ValueError ''Missing exchange rate for USD''),
         w\<lparr>trace := trace w @ [Http_get, Log_fetch_error (ValueError ''Missing exchange rate for USD'')]\<rparr>))
    \<and> (map_of rates ''USD'' = Some (JNum (Finite us uc ue)) \<and> uc \<noteq> 0 \<and>
        list_all (\<lambda>item. plain_rate (snd item)) rates \<longrightarrow>
      (\<exists>table. fetch_exchange_rates env w = (Inr table, w\<lparr>trace := trace w @ [Http_get]\<rparr>) \<and>
        list_all2 (is_multiplier (JNum (Finite us uc ue))) (filter (\<lambda>item. truthy (snd item)) rates) table))"
proof (intro conjI impI)
  assume "map_of rates ''USD'' \<in> {None, Some JNull}"
  then have "build_rates (Feed_body (Some rates)) = Inl (ValueError ''Missing exchange rate for USD'')"
    by (auto simp: build_rates_def)
  then show "fetch_exchange_rates env w =
        (Inl (ValueError ''Missing exchange rate for USD''),
         w\<lparr>trace := trace w @ [Http_get, Log_fetch_error (ValueError ''Missing exchange rate for USD'')]\<rparr>)"
    using feed by (simp add: fetch_exchange_rates_def try_except_def emit_def)
next
  assume a: "map_of rates ''USD'' = Some (JNum (Finite us uc ue)) \<and> uc \<noteq> 0 \<and>
        list_all (\<lambda>item. plain_rate (snd item)) rates"
  then have "(''USD'', JNum (Finite us uc ue)) \<in> set rates" by (auto dest: map_of_SomeD)
  with a have "plain_rate (JNum (Finite us uc ue))" by (auto simp: list_all_iff)
  then have ub: "ndigits uc \<le> 2000" "- 2000 \<le> ue" "ue \<le> 2000"
    by (simp_all add: plain_rate_def)
  from a rate_items_table [OF ub, of rates us] obtain table where
    table: "rate_items (JNum (Finite us uc ue)) rates = Inr table"
    and rel: "list_all2 (is_multiplier (JNum (Finite us uc ue))) (filter (\<lambda>item. truthy (snd item)) rates) table"
    by blast
  from a table have "build_rates (Feed_body (Some rates)) = Inr table"
    by (simp add: build_rates_def)
  then have "fetch_exchange_rates env w = (Inr table, w\<lparr>trace := trace w @ [Http_get]\<rparr>)"
    using feed by (simp add: fetch_exchange_rates_def try_except_def emit_def)
  with rel show "\<exists>table. fetch_exchange_rates env w = (Inr table, w\<lparr>trace := trace w @ [Http_get]\<rparr>) \<and>
        list_all2 (is_multiplier (JNum (Finite us uc ue))) (filter (\<lambda>item. truthy (snd item)) rates) table"
    by blast
qed

lemmas fetch_defs =
  fetch_exchange_rates_def try_except_def emit_def example_env_def feed_answers_def fresh_def
  build_rates_def truthy_def Decimal_json_def is_zero_def

lemma div_0_2: "dec_div (Finite False 0 0) (Finite False 2 0) = Inr (Finite False 0 0)"
  by (simp add: div_defs digits_of.simps)

theorem fetch_exchange_rates_builds_table_witness:
  "fetch_exchange_rates
     (example_env (Feed_body (Some [(''USD'', JNum (Finite False 1 0)), (''EUR'', JNum (Finite False 3 0)),
        (''GBP'', JNum (Finite False 0 0)), (''CAD'', JNull)])) (Inr [])) fresh =
   (Inr [(''USD'', Finite False 1 0), (''EUR'', Finite False 3333333333333333333333333333 (- 28))],
    \<lparr>ticks = 0, trace = [Http_get]\<rparr>)
   \<and> fetch_exchange_rates
     (example_env (Feed_body (Some [(''EUR'', JNum (Finite False 3 0))])) (Inr [])) fresh =
   (Inl (ValueError ''Missing exchange rate for USD''),
    \<lparr>ticks = 0, trace = [Http_get, Log_fetch_error (ValueError ''Missing exchange rate for USD'')]\<rparr>)"
proof -
  have plain: "list_all (\<lambda>item. plain_rate (snd item))
     [(''USD'', JNum (Finite False 1 0)), (''EUR'', JNum (Finite False 3 0)),
      (''GBP'', JNum (Finite False 0 0)), (''CAD'', JNull)]"
    by (simp add: plain_rate_def ndigits_def digits_of.simps)
  note t1 = fetch_exchange_rates_builds_table [of "example_env (Feed_body (Some [(''USD'', JNum (Finite False 1 0)), (''EUR'', JNum (Finite False 3 0)),
        (''GBP'', JNum (Finite False 0 0)), (''CAD'', JNull)])) (Inr [])" fresh
      "[(''USD'', JNum (Finite False 1 0)), (''EUR'', JNum (Finite False 3 0)),
        (''GBP'', JNum (Finite False 0 0)), (''CAD'', JNull)]" False 1 0, THEN conjunct2, THEN mp]
  note t2 = fetch_exchange_rates_builds_table [of "example_env (Feed_body (Some [(''EUR'', JNum (Finite False 3 0))])) (Inr [])" fresh
      "[(''EUR'', JNum (Finite False 3 0))]" False 1 0, THEN conjunct1, THEN mp]
  have "\<exists>table. fetch_exchange_rates
     (example_env (Feed_body (Some [(''USD'', JNum (Finite False 1 0)), (''EUR'', JNum (Finite False 3 0)),
        (''GBP'', JNum (Finite False 0 0)), (''CAD'', JNull)])) (Inr [])) fresh =
        (Inr table, fresh\<lparr>trace := trace fresh @ [Http_get]\<rparr>)
      \<and> list_all2 (is_multiplier (JNum (Finite False 1 0)))
          (filter (\<lambda>item. truthy (snd item))
            [(''USD'', JNum (Finite False 1 0)), (''EUR'', JNum (Finite False 3 0)),
             (''GBP'', JNum (Finite False 0 0)), (''CAD'', JNull)]) table"
    using plain by (intro t1) (simp_all add: example_env_def feed_answers_def)
  then obtain table where
    f: "fetch_exchange_rates
     (example_env (Feed_body (Some [(''USD'', JNum (Finite False 1 0)), (''EUR'', JNum (Finite False 3 0)),
        (''GBP'', JNum (Finite False 0 0)), (''CAD'', JNull)])) (Inr [])) fresh =
        (Inr table, fresh\<lparr>trace := trace fresh @ [Http_get]\<rparr>)"
    and m: "list_all2 (is_multiplier (JNum (Finite False 1 0)))
          (filter (\<lambda>item. truthy (snd item))
            [(''USD'', JNum (Finite False 1 0)), (''EUR'', JNum (Finite False 3 0)),
             (''GBP'', JNum (Finite False 0 0)), (''CAD'', JNull)]) table"
    by blast
  from m have "table = [(''USD'', Finite False 1 0), (''EUR'', Finite False 3333333333333333333333333333 (- 28))]"
    by (auto simp: truthy_def is_zero_def is_multiplier_def Decimal_json_def div_1_1 div_1_3
        list_all2_Cons1 simp del: One_nat_def)
  with f have first: "fetch_exchange_rates
     (example_env (Feed_body (Some [(''USD'', JNum (Finite False 1 0)), (''EUR'', JNum (Finite False 3 0)),
        (''GBP'', JNum (Finite False 0 0)), (''CAD'', JNull)])) (Inr [])) fresh =
   (Inr [(''USD'', Finite False 1 0), (''EUR'', Finite False 3333333333333333333333333333 (- 28))],
    \<lparr>ticks = 0, trace = [Http_get]\<rparr>)"
    by (simp add: fresh_def)
  have second: "fetch_exchange_rates
     (example_env (Feed_body (Some [(''EUR'', JNum (Finite False 3 0))])) (Inr [])) fresh =
   (Inl (ValueError ''Missing exchange rate for USD''),
    \<lparr>ticks = 0, trace = [Http_get, Log_fetch_error (ValueError ''Missing exchange rate for USD'')]\<rparr>)"
    using t2 by (simp add: example_env_def feed_answers_def fresh_def)
  from first second show ?thesis by (rule conjI)
qed

text \<open>
  The only test on the reference rate is \<^verbatim>\<open>usd_rate is None\<close>. A reference rate of zero
  does not make the construction fail: the table is built, with 0 for every currency
  whose raw rate is nonzero.
\<close>

theorem fetch_exchange_rates_zero_reference:
  "fetch_exchange_rates
     (example_env (Feed_body (Some [(''USD'', JNum (Finite False 0 0)), (''EUR'', JNum (Finite False 2 0))]))
        (Inr [])) fresh =
   (Inr [(''EUR'', Finite False 0 0)], \<lparr>ticks = 0, trace = [Http_get]\<rparr>)"
  by (simp add: fetch_defs div_0_2)

end
